theory Spec2Isabelle
  imports Complex_Main "HOL-Library.AList" "HOL-Library.Sublist"
begin

section \<open>Python values used by \<^verbatim>\<open>maps/build-map-layers.py\<close>\<close>

text \<open>
  The script is one module executed top to bottom. Its model is a function from the
  process environment (environment variables, command line, file system) to an outcome
  and a final file system and standard output. Calls into geopandas, shapely, requests
  and osmtogeojson are either modelled from their documented behaviour where a property
  depends on it, or taken from a record of library functions.
\<close>

subsection \<open>Exceptions and the ways the process can stop\<close>

datatype exn =
    FileNotFoundError
  | IsADirectoryError
  | FileExistsError
  | AttributeError
  | KeyError
  | ValueError
  | TypeError
  | LibraryError string

text \<open>
  \<open>Exit n\<close> is \<^verbatim>\<open>exit(n)\<close> (or argparse's own exit); \<open>Uncaught e\<close> is an exception
  that reaches the top level of the module: the interpreter prints a traceback and the
  process ends with status 1.
\<close>

datatype stop = Exit nat | Uncaught exn

fun exit_status :: "stop + unit \<Rightarrow> nat" where
  "exit_status (Inr u) = 0"
| "exit_status (Inl (Exit n)) = n"
| "exit_status (Inl (Uncaught e)) = 1"

subsection \<open>Floats\<close>

text \<open>
  A Python float is an IEEE-754 binary64 value. \<open>Finite r\<close> stands for the double whose
  value is the real \<open>r\<close> (the two zeros are one value here; they compare equal in
  Python). Arithmetic rounds the exact result to the nearest double, ties to even, and
  overflows to an infinity.
\<close>

datatype pyfloat = Finite real | PInf | NInf | NaN

definition rne :: "real \<Rightarrow> int" where
  "rne x =
     (let f = \<lfloor>x\<rfloor>; d = x - of_int f
      in if d < 1 / 2 then f
         else if 1 / 2 < d then f + 1
         else if even f then f else f + 1)"

definition b64_exponent :: "real \<Rightarrow> int" where
  "b64_exponent x = max \<lfloor>log 2 \<bar>x\<bar>\<rfloor> (- 1022)"

definition b64_ulp :: "real \<Rightarrow> real" where
  "b64_ulp x = 2 powr of_int (b64_exponent x - 52)"

definition b64_nearest :: "real \<Rightarrow> real" where
  "b64_nearest x = (if x = 0 then 0 else of_int (rne (x / b64_ulp x)) * b64_ulp x)"

definition fl_round :: "real \<Rightarrow> pyfloat" where
  "fl_round x =
     (let r = b64_nearest x
      in if 2 ^ 1024 \<le> r then PInf
         else if r \<le> - (2 ^ 1024) then NInf
         else Finite r)"

definition is_double :: "real \<Rightarrow> bool" where
  "is_double x \<longleftrightarrow> fl_round x = Finite x"

fun fl_neg :: "pyfloat \<Rightarrow> pyfloat" where
  "fl_neg (Finite x) = Finite (- x)"
| "fl_neg PInf = NInf"
| "fl_neg NInf = PInf"
| "fl_neg NaN = NaN"

fun fl_abs :: "pyfloat \<Rightarrow> pyfloat" where
  "fl_abs (Finite x) = Finite \<bar>x\<bar>"
| "fl_abs PInf = PInf"
| "fl_abs NInf = PInf"
| "fl_abs NaN = NaN"

fun fl_add :: "pyfloat \<Rightarrow> pyfloat \<Rightarrow> pyfloat" where
  "fl_add (Finite x) (Finite y) = fl_round (x + y)"
| "fl_add NaN b = NaN"
| "fl_add a NaN = NaN"
| "fl_add PInf NInf = NaN"
| "fl_add NInf PInf = NaN"
| "fl_add PInf b = PInf"
| "fl_add NInf b = NInf"
| "fl_add a PInf = PInf"
| "fl_add a NInf = NInf"

definition fl_sub :: "pyfloat \<Rightarrow> pyfloat \<Rightarrow> pyfloat" where
  "fl_sub a b = fl_add a (fl_neg b)"

fun fl_less :: "pyfloat \<Rightarrow> pyfloat \<Rightarrow> bool" where
  "fl_less NaN b = False"
| "fl_less a NaN = False"
| "fl_less (Finite x) (Finite y) = (x < y)"
| "fl_less a NInf = False"
| "fl_less PInf b = False"
| "fl_less NInf b = True"
| "fl_less a PInf = True"

fun fl_le :: "pyfloat \<Rightarrow> pyfloat \<Rightarrow> bool" where
  "fl_le NaN b = False"
| "fl_le a NaN = False"
| "fl_le a b = (a = b \<or> fl_less a b)"

subsection \<open>Truthiness and \<^verbatim>\<open>or\<close>\<close>

datatype pyval = PNone | PStr string | PFloat pyfloat

fun truthy :: "pyval \<Rightarrow> bool" where
  "truthy PNone = False"
| "truthy (PStr s) = (s \<noteq> [])"
| "truthy (PFloat x) = (x \<noteq> Finite 0)"

definition py_or :: "pyval \<Rightarrow> pyval \<Rightarrow> pyval" where
  "py_or a b = (if truthy a then a else b)"

definition of_opt_str :: "string option \<Rightarrow> pyval" where
  "of_opt_str v = (case v of None \<Rightarrow> PNone | Some s \<Rightarrow> PStr s)"

definition of_opt_float :: "pyfloat option \<Rightarrow> pyval" where
  "of_opt_float v = (case v of None \<Rightarrow> PNone | Some x \<Rightarrow> PFloat x)"

subsection \<open>Geometries (shapely) and frames (geopandas)\<close>

type_synonym coord = "pyfloat list"

record polygon =
  exterior :: "coord list"
  interiors :: "coord list list"

datatype geometry =
    Point coord
  | LineString "coord list"
  | LinearRing "coord list"
  | Polygon polygon
  | MultiPoint "coord list"
  | MultiLineString "coord list list"
  | MultiPolygon "polygon list"
  | GeometryCollection "geometry list"

text \<open>
  A frame has named columns, a coordinate reference system and rows; a row holds a value
  for attribute columns and a geometry (\<open>None\<close> for a missing geometry).
\<close>

record feature =
  props :: "(string \<times> pyval) list"
  geom :: "geometry option"

record gdf =
  columns :: "string list"
  crs :: "string option"
  rows :: "feature list"

definition cell :: "feature \<Rightarrow> string \<Rightarrow> pyval" where
  "cell f c = (case map_of (props f) c of None \<Rightarrow> PNone | Some v \<Rightarrow> v)"

datatype json =
    JNull
  | JBool bool
  | JNum pyfloat
  | JStr string
  | JArr "json list"
  | JObj "(string \<times> json) list"

subsection \<open>File system and standard output\<close>

text \<open>
  Files are identified by the path text the script uses; the order of the list is the
  order in which a directory listing returns its entries. A vector file (shapefile or
  GeoJSON written by geopandas) holds a frame, a file written by \<^verbatim>\<open>json.dump\<close> holds
  a JSON value, and a file that was opened for writing and received nothing is
  \<open>Truncated\<close>.
\<close>

datatype content = Vector gdf | Text json | Truncated

datatype entry = Dir | File content

type_synonym fs = "(string \<times> entry) list"

record world =
  files :: fs
  stdout :: "string list"

definition print :: "string \<Rightarrow> world \<Rightarrow> world" where
  "print s w = w\<lparr>stdout := stdout w @ [s]\<rparr>"

definition os_remove :: "string \<Rightarrow> fs \<Rightarrow> exn + fs" where
  "os_remove p fs =
     (case map_of fs p of
        None \<Rightarrow> Inl FileNotFoundError
      | Some Dir \<Rightarrow> Inl IsADirectoryError
      | Some (File c) \<Rightarrow> Inr (AList.delete p fs))"

definition write_file :: "string \<Rightarrow> content \<Rightarrow> fs \<Rightarrow> exn + fs" where
  "write_file p c fs =
     (case map_of fs p of
        Some Dir \<Rightarrow> Inl IsADirectoryError
      | _ \<Rightarrow> Inr (AList.update p (File c) fs))"

definition makedirs_exist_ok :: "string \<Rightarrow> fs \<Rightarrow> exn + fs" where
  "makedirs_exist_ok p fs =
     (case map_of fs p of
        None \<Rightarrow> Inr (AList.update p Dir fs)
      | Some Dir \<Rightarrow> Inr fs
      | Some (File c) \<Rightarrow> Inl FileExistsError)"

subsection \<open>Library functions\<close>

text \<open>
  What the script calls and does not define: \<^verbatim>\<open>float(text)\<close> (\<open>None\<close> for
  ValueError), \<^verbatim>\<open>str\<close> of a float and of an exception as f-strings print them, the
  text of \<^verbatim>\<open>parser.print_help()\<close>, reading GeoJSON text as a frame, \<^verbatim>\<open>gdf.clip\<close>,
  the reprojection of one geometry, \<^verbatim>\<open>requests.get\<close> (giving the response body),
  \<^verbatim>\<open>.json()\<close> of a response, \<^verbatim>\<open>osmtogeojson.process_osm_json\<close> and
  \<^verbatim>\<open>gpd.sjoin\<close>.
\<close>

record lib =
  py_float :: "string \<Rightarrow> pyfloat option"
  float_str :: "pyfloat \<Rightarrow> string"
  exn_str :: "exn \<Rightarrow> string"
  help_text :: string
  read_geojson :: "json \<Rightarrow> exn + gdf"
  gdf_clip :: "gdf \<Rightarrow> pyfloat \<times> pyfloat \<times> pyfloat \<times> pyfloat \<Rightarrow> exn + gdf"
  reproject :: "string \<Rightarrow> geometry \<Rightarrow> geometry"
  requests_get :: "string \<Rightarrow> string \<Rightarrow> exn + string"
  response_json :: "string \<Rightarrow> exn + json"
  process_osm_json :: "json \<Rightarrow> exn + json"
  sjoin_within :: "gdf \<Rightarrow> gdf \<Rightarrow> exn + gdf"

section \<open>Command line and origin\<close>

definition OUTPUT_DIR :: string where
  "OUTPUT_DIR = ''../public/map-data''"

definition DEFAULT_ORIGIN_DISTANCE :: pyfloat where
  "DEFAULT_ORIGIN_DISTANCE = Finite 2"

text \<open>
  The command line is given as the text supplied for each option (\<open>None\<close> when the
  option is omitted). argparse applies the option's \<^verbatim>\<open>type\<close> function to the text;
  a \<^verbatim>\<open>type=float\<close> that raises ends the process with status 2, and \<^verbatim>\<open>type=bool\<close>
  is Python's \<^verbatim>\<open>bool\<close> on a string.
\<close>

type_synonym argv = "string \<Rightarrow> string option"

type_synonym environ = "string \<Rightarrow> string option"

record args =
  origin_lat :: "pyfloat option"
  origin_lon :: "pyfloat option"
  origin_distance :: pyfloat
  origin_left :: "pyfloat option"
  origin_top :: "pyfloat option"
  show_geopandas_warnings :: bool
  build_110m_maps :: bool
  skip_aerodromes :: bool

definition py_bool_str :: "string \<Rightarrow> bool" where
  "py_bool_str s = (s \<noteq> [])"

definition arg_bool :: "string option \<Rightarrow> bool" where
  "arg_bool v = (case v of None \<Rightarrow> False | Some s \<Rightarrow> py_bool_str s)"

definition arg_float :: "lib \<Rightarrow> string option \<Rightarrow> stop + pyfloat option" where
  "arg_float l v =
     (case v of
        None \<Rightarrow> Inr None
      | Some s \<Rightarrow> (case py_float l s of None \<Rightarrow> Inl (Exit 2) | Some x \<Rightarrow> Inr (Some x)))"

definition parse_args :: "lib \<Rightarrow> argv \<Rightarrow> stop + args" where
  "parse_args l argv =
     (case arg_float l (argv ''--origin-lat'') of Inl s \<Rightarrow> Inl s | Inr lat \<Rightarrow>
      case arg_float l (argv ''--origin-lon'') of Inl s \<Rightarrow> Inl s | Inr lon \<Rightarrow>
      case arg_float l (argv ''--origin-distance'') of Inl s \<Rightarrow> Inl s | Inr distance \<Rightarrow>
      case arg_float l (argv ''--origin-left'') of Inl s \<Rightarrow> Inl s | Inr oleft \<Rightarrow>
      case arg_float l (argv ''--origin-top'') of Inl s \<Rightarrow> Inl s | Inr otop \<Rightarrow>
        Inr \<lparr>origin_lat = lat, origin_lon = lon,
             origin_distance = (case distance of None \<Rightarrow> DEFAULT_ORIGIN_DISTANCE | Some d \<Rightarrow> d),
             origin_left = oleft, origin_top = otop,
             show_geopandas_warnings = arg_bool (argv ''--show-geopandas-warnings''),
             build_110m_maps = arg_bool (argv ''--build-110m-maps''),
             skip_aerodromes = arg_bool (argv ''--skip-aerodromes'')\<rparr>)"

text \<open>\<^verbatim>\<open>float(v)\<close> on the value chosen for an origin coordinate.\<close>

fun float_of :: "lib \<Rightarrow> pyval \<Rightarrow> exn + pyfloat" where
  "float_of l (PFloat x) = Inr x"
| "float_of l (PStr s) = (case py_float l s of None \<Rightarrow> Inl ValueError | Some x \<Rightarrow> Inr x)"
| "float_of l PNone = Inl TypeError"

definition chosen_origin :: "string option \<Rightarrow> pyfloat option \<Rightarrow> pyval" where
  "chosen_origin env_value arg_value = py_or (of_opt_str env_value) (of_opt_float arg_value)"

definition resolve_origin ::
  "lib \<Rightarrow> environ \<Rightarrow> args \<Rightarrow> world \<Rightarrow> (stop + pyfloat \<times> pyfloat) \<times> world" where
  "resolve_origin l env a w =
     (let lat = chosen_origin (env ''SKIES_ADSB_DEFAULT_ORIGIN_LATITUDE'') (origin_lat a);
          lon = chosen_origin (env ''SKIES_ADSB_DEFAULT_ORIGIN_LONGITUDE'') (origin_lon a)
      in if lat \<noteq> PNone \<and> lon \<noteq> PNone then
           (case float_of l lat of
              Inl e \<Rightarrow> (Inl (Uncaught e), w)
            | Inr ORIGIN_LAT \<Rightarrow>
                (case float_of l lon of
                   Inl e \<Rightarrow> (Inl (Uncaught e), w)
                 | Inr ORIGIN_LON \<Rightarrow> (Inr (ORIGIN_LAT, ORIGIN_LON), w)))
         else
           (Inl (Exit 1),
            print [] (print (help_text l)
              (print ''Error: Default origin latitude and longitude not found.'' w))))"

subsection \<open>Bounding box\<close>

record bbox =
  WEST :: pyfloat
  NORTH :: pyfloat
  EAST :: pyfloat
  SOUTH :: pyfloat

definition origin_offsets :: "args \<Rightarrow> pyfloat \<times> pyfloat" where
  "origin_offsets a =
     (let (ORIGIN_LEFT, ORIGIN_TOP) =
            (case (origin_left a, origin_top a) of
               (Some oleft, Some otop) \<Rightarrow> (oleft, otop)
             | _ \<Rightarrow> (origin_distance a, origin_distance a))
      in (fl_abs ORIGIN_LEFT, fl_abs ORIGIN_TOP))"

definition setup_bounding_box :: "pyfloat \<Rightarrow> pyfloat \<Rightarrow> args \<Rightarrow> bbox" where
  "setup_bounding_box ORIGIN_LAT ORIGIN_LON a =
     (let (ORIGIN_LEFT, ORIGIN_TOP) = origin_offsets a
      in \<lparr>WEST = fl_sub ORIGIN_LON ORIGIN_LEFT,
          NORTH = fl_add ORIGIN_LAT ORIGIN_TOP,
          EAST = fl_add ORIGIN_LON ORIGIN_LEFT,
          SOUTH = fl_sub ORIGIN_LAT ORIGIN_TOP\<rparr>)"

section \<open>Clipping\<close>

fun convert_polygons_to_lines :: "geometry \<Rightarrow> geometry" where
  "convert_polygons_to_lines (Polygon p) = LineString (exterior p)"
| "convert_polygons_to_lines (MultiPolygon ps) = MultiLineString (map exterior ps)"
| "convert_polygons_to_lines g = g"

text \<open>
  \<^verbatim>\<open>gpd.read_file\<close>: a path that does not exist, like one that cannot be read as
  a vector file, raises the library's own DataSourceError, which is not a
  FileNotFoundError: of the two handlers of \<open>clip_shapefile_to_bounding_box\<close> it is
  the second that catches it.
\<close>

definition gpd_read_file :: "lib \<Rightarrow> string \<Rightarrow> fs \<Rightarrow> exn + gdf" where
  "gpd_read_file l p fs =
     (case map_of fs p of
        None \<Rightarrow> Inl (LibraryError ''DataSourceError'')
      | Some Dir \<Rightarrow> Inl (LibraryError ''DataSourceError'')
      | Some (File (Vector g)) \<Rightarrow> Inr g
      | Some (File (Text j)) \<Rightarrow> read_geojson l j
      | Some (File Truncated) \<Rightarrow> Inl (LibraryError ''DataSourceError''))"

definition to_file :: "gdf \<Rightarrow> string \<Rightarrow> fs \<Rightarrow> exn + fs" where
  "to_file g p fs = write_file p (Vector g) fs"

definition apply_geometry :: "(geometry \<Rightarrow> geometry) \<Rightarrow> gdf \<Rightarrow> gdf" where
  "apply_geometry f g = g\<lparr>rows := map (\<lambda>r. r\<lparr>geom := map_option f (geom r)\<rparr>) (rows g)\<rparr>"

definition box_tuple :: "bbox \<Rightarrow> pyfloat \<times> pyfloat \<times> pyfloat \<times> pyfloat" where
  "box_tuple b = (WEST b, NORTH b, EAST b, SOUTH b)"

definition clip_body ::
  "lib \<Rightarrow> string \<Rightarrow> pyfloat \<times> pyfloat \<times> pyfloat \<times> pyfloat \<Rightarrow> fs \<Rightarrow> exn + gdf" where
  "clip_body l shape_file bounding_box fs =
     (case gpd_read_file l shape_file fs of
        Inl e \<Rightarrow> Inl e
      | Inr g \<Rightarrow>
          (case gdf_clip l g bounding_box of
             Inl e \<Rightarrow> Inl e
           | Inr clipped_gdf \<Rightarrow> Inr (apply_geometry convert_polygons_to_lines clipped_gdf)))"

definition clip_shapefile_to_bounding_box ::
  "lib \<Rightarrow> string \<Rightarrow> pyfloat \<times> pyfloat \<times> pyfloat \<times> pyfloat \<Rightarrow> world \<Rightarrow> gdf option \<times> world" where
  "clip_shapefile_to_bounding_box l shape_file bounding_box w =
     (case clip_body l shape_file bounding_box (files w) of
        Inr clipped_gdf \<Rightarrow> (Some clipped_gdf, w)
      | Inl FileNotFoundError \<Rightarrow>
          (None, print (''Error: shape file not found at '' @ shape_file) w)
      | Inl e \<Rightarrow> (None, print (''An unexpected error occurred: '' @ exn_str l e) w))"

section \<open>Cleaning the output directory\<close>

text \<open>
  \<^verbatim>\<open>fnmatch\<close> for patterns made of literal characters and \<^verbatim>\<open>*\<close> (the two patterns
  of the script are of this kind). \<^verbatim>\<open>glob\<close> lists the directory, drops the names
  that begin with a dot unless the pattern does, and keeps the names that match.
\<close>

fun fnmatch :: "string \<Rightarrow> string \<Rightarrow> bool" where
  "fnmatch [] [] = True"
| "fnmatch [] (c # cs) = False"
| "fnmatch (p # ps) [] = (p = CHR ''*'' \<and> fnmatch ps [])"
| "fnmatch (p # ps) (c # cs) =
     (if p = CHR ''*'' then fnmatch ps (c # cs) \<or> fnmatch (p # ps) cs
      else p = c \<and> fnmatch ps cs)"

definition ishidden :: "string \<Rightarrow> bool" where
  "ishidden s = (case s of [] \<Rightarrow> False | c # cs \<Rightarrow> c = CHR ''.'')"

definition glob_match :: "string \<Rightarrow> string \<Rightarrow> bool" where
  "glob_match pattern name = ((ishidden pattern \<or> \<not> ishidden name) \<and> fnmatch pattern name)"

definition in_dir :: "string \<Rightarrow> string \<Rightarrow> string option" where
  "in_dir d p =
     (let n = length d + 1; name = drop n p
      in if take n p = d @ ''/'' \<and> name \<noteq> [] \<and> CHR ''/'' \<notin> set name then Some name else None)"

definition glob :: "string \<Rightarrow> string \<Rightarrow> fs \<Rightarrow> string list" where
  "glob d pattern fs =
     map fst (filter (\<lambda>(p, e). case in_dir d p of None \<Rightarrow> False
                                | Some name \<Rightarrow> glob_match pattern name) fs)"

fun remove_files :: "string list \<Rightarrow> world \<Rightarrow> (exn + unit) \<times> world" where
  "remove_files [] w = (Inr (), w)"
| "remove_files (file # rest) w =
     (case os_remove file (files w) of
        Inl e \<Rightarrow> (Inl e, w)
      | Inr fs' \<Rightarrow> remove_files rest (print (''Deleted: '' @ file) (w\<lparr>files := fs'\<rparr>)))"

fun clean_patterns :: "string list \<Rightarrow> world \<Rightarrow> (exn + unit) \<times> world" where
  "clean_patterns [] w = (Inr (), w)"
| "clean_patterns (pattern # rest) w =
     (case remove_files (glob OUTPUT_DIR pattern (files w)) w of
        (Inl e, w') \<Rightarrow> (Inl e, w')
      | (Inr u, w') \<Rightarrow> clean_patterns rest w')"

definition clean_output_directory :: "lib \<Rightarrow> world \<Rightarrow> world" where
  "clean_output_directory l w =
     (case clean_patterns [''*.geojson'', ''*.json'']
             (print (''Cleaning output directory: '' @ OUTPUT_DIR) w) of
        (Inr u, w') \<Rightarrow> w'
      | (Inl e, w') \<Rightarrow>
          print (''Error cleaning directory '' @ OUTPUT_DIR @ '': '' @ exn_str l e) w')"

section \<open>Natural Earth layers\<close>

definition tab :: string where
  "tab = [CHR 0x09]"

definition nl :: string where
  "nl = [CHR 0x0A]"

definition hashes :: string where
  "hashes = ''############################################''"

definition equals :: string where
  "equals = ''============================================''"

definition MAP_LAYERS_10M :: "(string \<times> string) list" where
  "MAP_LAYERS_10M =
     [(''data/10m_cultural/10m_cultural/ne_10m_admin_1_states_provinces.shp'', ''states_provinces''),
      (''data/10m_cultural/10m_cultural/ne_10m_airports.shp'', ''airports''),
      (''data/10m_cultural/10m_cultural/ne_10m_urban_areas.shp'', ''urban_areas''),
      (''data/10m_cultural/10m_cultural/ne_10m_admin_2_counties.shp'', ''counties''),
      (''data/10m_cultural/10m_cultural/ne_10m_roads.shp'', ''roads''),
      (''data/10m_physical/ne_10m_lakes.shp'', ''lakes''),
      (''data/10m_physical/ne_10m_rivers_lake_centerlines.shp'', ''rivers'')]"

definition MAP_LAYERS_110M :: "(string \<times> string) list" where
  "MAP_LAYERS_110M =
     [(''data/110m_cultural/ne_110m_admin_1_states_provinces.shp'', ''states_provinces''),
      (''data/110m_physical/ne_110m_lakes.shp'', ''lakes''),
      (''data/110m_physical/ne_110m_rivers_lake_centerlines.shp'', ''rivers'')]"

definition MAP_LAYERS :: "args \<Rightarrow> (string \<times> string) list" where
  "MAP_LAYERS a = (if build_110m_maps a then MAP_LAYERS_110M else MAP_LAYERS_10M)"

definition geojson_path :: "string \<Rightarrow> string" where
  "geojson_path output_name = OUTPUT_DIR @ ''/'' @ output_name @ ''.geojson''"

definition box_text :: "lib \<Rightarrow> bbox \<Rightarrow> string" where
  "box_text l b =
     ''('' @ float_str l (WEST b) @ '', '' @ float_str l (NORTH b) @ '') to (''
       @ float_str l (EAST b) @ '', '' @ float_str l (SOUTH b) @ '')''"

text \<open>
  The loop over \<open>MAP_LAYERS\<close>: the result of the clipping function is used without a
  test, so \<^verbatim>\<open>None.to_file\<close> raises AttributeError at the top level.
\<close>

fun clip_layers :: "lib \<Rightarrow> bbox \<Rightarrow> (string \<times> string) list \<Rightarrow> world \<Rightarrow> (stop + unit) \<times> world" where
  "clip_layers l b [] w = (Inr (), w)"
| "clip_layers l b ((map_data, output_name) # rest) w =
     (case clip_shapefile_to_bounding_box l map_data (box_tuple b)
             (print (tab @ ''Clipping '' @ map_data @ '' to bounding box...'') w) of
        (None, w') \<Rightarrow> (Inl (Uncaught AttributeError), w')
      | (Some clipped_map, w') \<Rightarrow>
          (case to_file clipped_map (geojson_path output_name) (files w') of
             Inl e \<Rightarrow> (Inl (Uncaught e), w')
           | Inr fs' \<Rightarrow> clip_layers l b rest (w'\<lparr>files := fs'\<rparr>)))"

definition layers_stage :: "lib \<Rightarrow> args \<Rightarrow> bbox \<Rightarrow> world \<Rightarrow> (stop + unit) \<times> world" where
  "layers_stage l a b w =
     (let w1 = print ''Generating Natural Earth Layers...'' (print hashes w);
          w2 = print (if build_110m_maps a then nl @ tab @ ''Building 110m maps''
                      else nl @ tab @ ''Building 10m maps'') w1;
          w3 = print (nl @ tab @ ''Clipping maps to bounding box '' @ box_text l b @ ''...'') w2
      in case clip_layers l b (MAP_LAYERS a) w3 of
           (Inl s, w') \<Rightarrow> (Inl s, w')
         | (Inr u, w') \<Rightarrow> (Inr (), print equals w'))"

section \<open>FAA airspace layers\<close>

definition AIRSPACE :: "(string \<times> string) list" where
  "AIRSPACE =
     [(''B'', ''airspace_class_b''),
      (''C'', ''airspace_class_c''),
      (''D'', ''airspace_class_d'')]"

text \<open>
  \<^verbatim>\<open>gdf.to_crs\<close> reprojects the geometry of every row and leaves the attributes; it
  raises ValueError on a frame that has no coordinate reference system.
\<close>

definition to_crs :: "lib \<Rightarrow> string \<Rightarrow> gdf \<Rightarrow> exn + gdf" where
  "to_crs l target g =
     (case crs g of
        None \<Rightarrow> Inl ValueError
      | Some c \<Rightarrow> Inr ((apply_geometry (reproject l target) g)\<lparr>crs := Some target\<rparr>))"

text \<open>\<^verbatim>\<open>g[g[column] == value]\<close>: KeyError when the frame has no such column.\<close>

definition select_eq :: "gdf \<Rightarrow> string \<Rightarrow> string \<Rightarrow> exn + gdf" where
  "select_eq g column v =
     (if column \<in> set (columns g)
      then Inr (g\<lparr>rows := filter (\<lambda>f. cell f column = PStr v) (rows g)\<rparr>)
      else Inl KeyError)"

fun write_airspace :: "gdf \<Rightarrow> (string \<times> string) list \<Rightarrow> world \<Rightarrow> (stop + unit) \<times> world" where
  "write_airspace clipped_airspace [] w = (Inr (), w)"
| "write_airspace clipped_airspace ((class_name, output_name) # rest) w =
     (let w1 = print (tab @ ''Clipping Class '' @ class_name @ '' Airspace to bounding box...'') w
      in case select_eq clipped_airspace ''CLASS'' class_name of
           Inl e \<Rightarrow> (Inl (Uncaught e), w1)
         | Inr airspace \<Rightarrow>
             (case to_file airspace (geojson_path output_name) (files w1) of
                Inl e \<Rightarrow> (Inl (Uncaught e), w1)
              | Inr fs' \<Rightarrow> write_airspace clipped_airspace rest (w1\<lparr>files := fs'\<rparr>)))"

definition airspace_stage :: "lib \<Rightarrow> bbox \<Rightarrow> world \<Rightarrow> (stop + unit) \<times> world" where
  "airspace_stage l b w =
     (let w1 = print (''Generating FAA Airspace Layers...'' @ nl) (print hashes w)
      in case clip_shapefile_to_bounding_box l ''data/Class_Airspace/Class_Airspace.shp''
                (box_tuple b) w1 of
           (None, w2) \<Rightarrow> (Inl (Uncaught AttributeError), w2)
         | (Some clipped, w2) \<Rightarrow>
             (case to_crs l ''EPSG:4326'' clipped of
                Inl e \<Rightarrow> (Inl (Uncaught e), w2)
              | Inr clipped_airspace \<Rightarrow>
                  (case write_airspace clipped_airspace AIRSPACE w2 of
                     (Inl s, w3) \<Rightarrow> (Inl s, w3)
                   | (Inr u, w3) \<Rightarrow> (Inr (), print equals w3))))"

section \<open>OSM aerodromes and runways\<close>

definition OVERPASS_URL :: string where
  "OVERPASS_URL = ''https://overpass-api.de/api/interpreter''"

definition overpass_bounds :: "lib \<Rightarrow> bbox \<Rightarrow> string" where
  "overpass_bounds l b =
     float_str l (SOUTH b) @ '','' @ float_str l (WEST b) @ '',''
       @ float_str l (NORTH b) @ '','' @ float_str l (EAST b)"

definition indent :: string where
  "indent = replicate 12 CHR '' ''"

definition geometry_query :: "lib \<Rightarrow> bbox \<Rightarrow> string \<Rightarrow> string" where
  \<open>geometry_query l b osm_value =
     (let bounds = overpass_bounds l b
      in nl @ indent @ ''[out:json][timeout:25];'' @ nl
         @ indent @ ''(    '' @ nl
         @ indent @ ''way["aeroway"="'' @ osm_value @ ''"]('' @ bounds @ '');'' @ nl
         @ indent @ ''relation["aeroway"="'' @ osm_value @ ''"]('' @ bounds @ '');'' @ nl
         @ indent @ '');'' @ nl
         @ indent @ ''out body;'' @ nl
         @ indent @ ''>;'' @ nl
         @ indent @ ''out skel qt;'' @ nl
         @ replicate 8 CHR '' '')\<close>

definition origins_query :: "lib \<Rightarrow> bbox \<Rightarrow> string" where
  \<open>origins_query l b =
     (let bounds = overpass_bounds l b
      in nl @ indent @ ''[out:json][timeout:25];'' @ nl
         @ indent @ ''(    '' @ nl
         @ indent @ ''way["aeroway"="aerodrome"]('' @ bounds @ '');'' @ nl
         @ indent @ ''relation["aeroway"="aerodrome"]('' @ bounds @ '');'' @ nl
         @ indent @ '');'' @ nl
         @ indent @ ''out center tags;'' @ nl
         @ replicate 8 CHR '' '')\<close>

text \<open>\<^verbatim>\<open>d[key] = value\<close> on what a JSON document parsed to.\<close>

fun json_setitem :: "string \<Rightarrow> json \<Rightarrow> json \<Rightarrow> exn + json" where
  "json_setitem k v (JObj kvs) = Inr (JObj (AList.update k v kvs))"
| "json_setitem k v j = Inl TypeError"

definition json_dump :: "json \<Rightarrow> string \<Rightarrow> fs \<Rightarrow> exn + fs" where
  "json_dump j p fs = write_file p (Text j) fs"

definition generate_body :: "lib \<Rightarrow> bbox \<Rightarrow> string \<Rightarrow> string \<Rightarrow> fs \<Rightarrow> exn + fs" where
  "generate_body l b osm_value output_file_name fs =
     (case requests_get l OVERPASS_URL (geometry_query l b osm_value) of
        Inl e \<Rightarrow> Inl e
      | Inr result \<Rightarrow>
     (case response_json l result of
        Inl e \<Rightarrow> Inl e
      | Inr j \<Rightarrow>
     (case process_osm_json l j of
        Inl e \<Rightarrow> Inl e
      | Inr osm_json \<Rightarrow>
     (case json_setitem ''name'' (JStr osm_value) osm_json of
        Inl e \<Rightarrow> Inl e
      | Inr named \<Rightarrow> json_dump named (OUTPUT_DIR @ ''/'' @ output_file_name) fs))))"

definition generate_aerodrome_runway_geometry ::
  "lib \<Rightarrow> bbox \<Rightarrow> string \<Rightarrow> string \<Rightarrow> world \<Rightarrow> world" where
  "generate_aerodrome_runway_geometry l b osm_value output_file_name w =
     (let w1 = print (geometry_query l b osm_value) w
      in case generate_body l b osm_value output_file_name (files w1) of
           Inr fs' \<Rightarrow> w1\<lparr>files := fs'\<rparr>
         | Inl e \<Rightarrow> print (''An unexpected error occurred: '' @ exn_str l e) w1)"

definition OVERPASS_QUERIES :: "(string \<times> string) list" where
  "OVERPASS_QUERIES =
     [(''aerodrome'', ''aerodrome.geojson''),
      (''runway'', ''tmp_runway.geojson'')]"

text \<open>
  The loop over \<open>OVERPASS_QUERIES\<close>. With the skip flag the placeholder is opened at
  \<open>output_file_name\<close> as it stands in the list, a path relative to the working
  directory.
\<close>

fun run_queries :: "lib \<Rightarrow> args \<Rightarrow> bbox \<Rightarrow> (string \<times> string) list \<Rightarrow> world \<Rightarrow> (stop + unit) \<times> world" where
  "run_queries l a b [] w = (Inr (), w)"
| "run_queries l a b ((osm_value, output_file_name) # rest) w =
     (if \<not> skip_aerodromes a then
        run_queries l a b rest
          (generate_aerodrome_runway_geometry l b osm_value output_file_name
             (print (tab @ ''Running Overpass query for '' @ osm_value @ ''...'') w))
      else
        (let w1 = print (tab @ ''Skipping Overpass query for '' @ osm_value @ ''...'') w
         in case json_dump (JObj []) output_file_name (files w1) of
              Inl e \<Rightarrow> (Inl (Uncaught e), w1)
            | Inr fs' \<Rightarrow> run_queries l a b rest (w1\<lparr>files := fs'\<rparr>)))"

definition tmp_runway_geojson :: string where
  "tmp_runway_geojson = OUTPUT_DIR @ ''/'' @ snd (OVERPASS_QUERIES ! 1)"

definition aerodrome_geojson :: string where
  "aerodrome_geojson = OUTPUT_DIR @ ''/'' @ snd (OVERPASS_QUERIES ! 0)"

definition merge_aerodromes_runways :: "lib \<Rightarrow> world \<Rightarrow> (stop + unit) \<times> world" where
  "merge_aerodromes_runways l w =
     (let w1 = print (tab @ ''Merge Aerodromes and Runways...'') w
      in case gpd_read_file l aerodrome_geojson (files w1) of
           Inl e \<Rightarrow> (Inl (Uncaught e), w1)
         | Inr gdf_aerodromes \<Rightarrow>
      (case gpd_read_file l tmp_runway_geojson (files w1) of
           Inl e \<Rightarrow> (Inl (Uncaught e), w1)
         | Inr gdf_runways \<Rightarrow>
      (case sjoin_within l gdf_runways gdf_aerodromes of
           Inl e \<Rightarrow> (Inl (Uncaught e), w1)
         | Inr merged_gdf \<Rightarrow>
      (case to_file merged_gdf (OUTPUT_DIR @ ''/runway.geojson'') (files w1) of
           Inl e \<Rightarrow> (Inl (Uncaught e), w1)
         | Inr fs' \<Rightarrow>
             (Inr (),
              print equals
                (case os_remove tmp_runway_geojson fs' of
                   Inr fs'' \<Rightarrow> print (''Deleted: '' @ tmp_runway_geojson) (w1\<lparr>files := fs''\<rparr>)
                 | Inl e \<Rightarrow>
                     print (''Error cleaning directory '' @ OUTPUT_DIR @ '': '' @ exn_str l e)
                       (w1\<lparr>files := fs'\<rparr>)))))))"

definition aerodrome_stage :: "lib \<Rightarrow> args \<Rightarrow> bbox \<Rightarrow> world \<Rightarrow> (stop + unit) \<times> world" where
  "aerodrome_stage l a b w =
     (let w1 = print (''Generating OSM Aerodrome and Runway Geometry Layers...'' @ nl)
                 (print hashes w)
      in case run_queries l a b OVERPASS_QUERIES w1 of
           (Inl s, w2) \<Rightarrow> (Inl s, w2)
         | (Inr u, w2) \<Rightarrow> merge_aerodromes_runways l w2)"

section \<open>Aerodrome origins\<close>

definition AERODROME_ORIGINS_FILENAME :: string where
  "AERODROME_ORIGINS_FILENAME = OUTPUT_DIR @ ''/origins.json''"

text \<open>
  Here the file is opened for writing before \<^verbatim>\<open>result.json()\<close> is evaluated: a
  response that is not JSON leaves an empty file behind.
\<close>

definition get_aerodrome_origins_as_lat_lon :: "lib \<Rightarrow> bbox \<Rightarrow> world \<Rightarrow> world" where
  "get_aerodrome_origins_as_lat_lon l b w =
     (let w1 = print (origins_query l b) w
      in case requests_get l OVERPASS_URL (origins_query l b) of
           Inl e \<Rightarrow> print (''An unexpected error occurred: '' @ exn_str l e) w1
         | Inr result \<Rightarrow>
      (case write_file AERODROME_ORIGINS_FILENAME Truncated (files w1) of
           Inl e \<Rightarrow> print (''An unexpected error occurred: '' @ exn_str l e) w1
         | Inr opened \<Rightarrow>
      (case response_json l result of
           Inl e \<Rightarrow>
             print (''An unexpected error occurred: '' @ exn_str l e) (w1\<lparr>files := opened\<rparr>)
         | Inr j \<Rightarrow>
      (case json_dump j AERODROME_ORIGINS_FILENAME opened of
           Inl e \<Rightarrow>
             print (''An unexpected error occurred: '' @ exn_str l e) (w1\<lparr>files := opened\<rparr>)
         | Inr fs' \<Rightarrow> w1\<lparr>files := fs'\<rparr>))))"

definition origins_stage :: "lib \<Rightarrow> args \<Rightarrow> bbox \<Rightarrow> world \<Rightarrow> (stop + unit) \<times> world" where
  "origins_stage l a b w =
     (let w1 = print ''Fetching OSM Aerodrome Origins as LAT/LON...'' (print hashes w)
      in if \<not> skip_aerodromes a then
           (Inr (), print equals (get_aerodrome_origins_as_lat_lon l b w1))
         else
           (let w2 = print (tab @ ''Skipping Overpass query for OSM Aerodrome Origins...'') w1
            in case json_dump (JObj []) AERODROME_ORIGINS_FILENAME (files w2) of
                 Inl e \<Rightarrow> (Inl (Uncaught e), w2)
               | Inr fs' \<Rightarrow> (Inr (), print equals (w2\<lparr>files := fs'\<rparr>))))"

section \<open>The script\<close>

text \<open>
  \<^verbatim>\<open>warnings.filterwarnings\<close> only changes what is written to standard error and is
  left out.
\<close>

definition print_origin :: "lib \<Rightarrow> pyfloat \<Rightarrow> pyfloat \<Rightarrow> args \<Rightarrow> bbox \<Rightarrow> world \<Rightarrow> world" where
  "print_origin l ORIGIN_LAT ORIGIN_LON a b w =
     (let (ORIGIN_LEFT, ORIGIN_TOP) = origin_offsets a;
          w1 = print hashes w;
          w2 = print (nl @ ''Default Origin lat: '' @ float_str l ORIGIN_LAT
                        @ '' lon: '' @ float_str l ORIGIN_LON) w1;
          w3 = print (''Origin Left: '' @ float_str l ORIGIN_LEFT
                        @ '' Top: '' @ float_str l ORIGIN_TOP) w2;
          w4 = print (''Bounding box: '' @ box_text l b @ nl) w3
      in print equals w4)"

text \<open>Everything that follows the cleaning of the output directory.\<close>

definition build_layers :: "lib \<Rightarrow> args \<Rightarrow> bbox \<Rightarrow> world \<Rightarrow> (stop + unit) \<times> world" where
  "build_layers l a b w =
     (case layers_stage l a b w of
        (Inl s, w1) \<Rightarrow> (Inl s, w1)
      | (Inr u, w1) \<Rightarrow>
     (case airspace_stage l b w1 of
        (Inl s, w2) \<Rightarrow> (Inl s, w2)
      | (Inr u, w2) \<Rightarrow>
     (case aerodrome_stage l a b w2 of
        (Inl s, w3) \<Rightarrow> (Inl s, w3)
      | (Inr u, w3) \<Rightarrow> origins_stage l a b w3)))"

definition after_origin ::
  "lib \<Rightarrow> args \<Rightarrow> pyfloat \<Rightarrow> pyfloat \<Rightarrow> world \<Rightarrow> (stop + unit) \<times> world" where
  "after_origin l a ORIGIN_LAT ORIGIN_LON w =
     (let b = setup_bounding_box ORIGIN_LAT ORIGIN_LON a;
          w1 = print_origin l ORIGIN_LAT ORIGIN_LON a b w;
          w2 = print equals (clean_output_directory l (print hashes w1))
      in build_layers l a b w2)"

definition run :: "lib \<Rightarrow> environ \<Rightarrow> argv \<Rightarrow> world \<Rightarrow> (stop + unit) \<times> world" where
  "run l env argv w =
     (case makedirs_exist_ok OUTPUT_DIR (files w) of
        Inl e \<Rightarrow> (Inl (Uncaught e), w)
      | Inr fs0 \<Rightarrow>
     (case parse_args l argv of
        Inl s \<Rightarrow> (Inl s, w\<lparr>files := fs0\<rparr>)
      | Inr a \<Rightarrow>
     (case resolve_origin l env a (w\<lparr>files := fs0\<rparr>) of
        (Inl s, w1) \<Rightarrow> (Inl s, w1)
      | (Inr (ORIGIN_LAT, ORIGIN_LON), w1) \<Rightarrow> after_origin l a ORIGIN_LAT ORIGIN_LON w1)))"

section \<open>Example inputs\<close>

text \<open>
  A library instance (no network, clipping and reprojection that return their input) and
  the command lines, environments and file systems used in the examples.
\<close>

definition example_lib :: lib where
  "example_lib =
     \<lparr>py_float = (\<lambda>s. if s = ''25.5'' then Some (Finite (51 / 2))
                      else if s = ''-80.25'' then Some (Finite (- (321 / 4)))
                      else None),
      float_str = (\<lambda>x. ''x''),
      exn_str = (\<lambda>e. ''error''),
      help_text = ''usage'',
      read_geojson = (\<lambda>j. Inl (LibraryError ''not GeoJSON'')),
      gdf_clip = (\<lambda>g b. Inr g),
      reproject = (\<lambda>t g. g),
      requests_get = (\<lambda>u q. Inl (LibraryError ''offline'')),
      response_json = (\<lambda>r. Inl ValueError),
      process_osm_json = (\<lambda>j. Inr j),
      sjoin_within = (\<lambda>r a. Inr r)\<rparr>"


definition empty_world :: world where
  "empty_world = \<lparr>files = [], stdout = []\<rparr>"

definition default_args :: args where
  "default_args =
     \<lparr>origin_lat = None, origin_lon = None, origin_distance = Finite 2,
      origin_left = None, origin_top = None,
      show_geopandas_warnings = False, build_110m_maps = False, skip_aerodromes = False\<rparr>"

definition example_argv :: argv where
  "example_argv =
     [''--origin-lat'' \<mapsto> ''25.5'', ''--origin-lon'' \<mapsto> ''-80.25'',
      ''--show-geopandas-warnings'' \<mapsto> [], ''--build-110m-maps'' \<mapsto> ''0'',
      ''--skip-aerodromes'' \<mapsto> ''false'']"

definition example_args :: args where
  "example_args =
     \<lparr>origin_lat = Some (Finite (51 / 2)), origin_lon = Some (Finite (- (321 / 4))),
      origin_distance = Finite 2, origin_left = None, origin_top = None,
      show_geopandas_warnings = False, build_110m_maps = True, skip_aerodromes = True\<rparr>"

definition example_env :: environ where
  "example_env =
     [''SKIES_ADSB_DEFAULT_ORIGIN_LATITUDE'' \<mapsto> ''25.5'',
      ''SKIES_ADSB_DEFAULT_ORIGIN_LONGITUDE'' \<mapsto> ''-80.25'']"

definition cli_origin_args :: args where
  "cli_origin_args = default_args\<lparr>origin_lat := Some (Finite 10), origin_lon := Some (Finite 20)\<rparr>"

definition tiny :: real where
  "tiny = 1 / 2 ^ 60"

definition tiny_distance_args :: args where
  "tiny_distance_args = default_args\<lparr>origin_distance := Finite tiny\<rparr>"

definition unit_square :: polygon where
  "unit_square =
     \<lparr>exterior = [[Finite 0, Finite 0], [Finite 1, Finite 0], [Finite 1, Finite 1],
                   [Finite 0, Finite 1], [Finite 0, Finite 0]],
      interiors = [[[Finite (1 / 4), Finite (1 / 4)], [Finite (1 / 2), Finite (1 / 4)],
                    [Finite (1 / 2), Finite (1 / 2)], [Finite (1 / 4), Finite (1 / 4)]]]\<rparr>"

definition airspace_row :: "string \<Rightarrow> string \<Rightarrow> feature" where
  "airspace_row v n =
     \<lparr>props = [(''CLASS'', PStr v), (''NAME'', PStr n)],
      geom = Some (Point [Finite (- 80), Finite 25])\<rparr>"

definition airspace_frame :: gdf where
  "airspace_frame =
     \<lparr>columns = [''CLASS'', ''NAME''], crs = Some ''EPSG:4269'',
      rows = [airspace_row ''A'' ''HIGH'', airspace_row ''B'' ''MIAMI'',
              airspace_row ''C'' ''PALM BEACH'', airspace_row ''B'' ''ORLANDO'']\<rparr>"

definition airspace_world :: world where
  "airspace_world =
     \<lparr>files = [(''data/Class_Airspace/Class_Airspace.shp'', File (Vector airspace_frame))],
      stdout = []\<rparr>"

definition example_box :: bbox where
  "example_box = \<lparr>WEST = Finite (- 82), NORTH = Finite 27, EAST = Finite (- 78), SOUTH = Finite 23\<rparr>"

definition origin_argv :: argv where
  "origin_argv = [''--origin-lat'' \<mapsto> ''25.5'', ''--origin-lon'' \<mapsto> ''-80.25'']"

definition origin_args :: args where
  "origin_args =
     default_args\<lparr>origin_lat := Some (Finite (51 / 2)), origin_lon := Some (Finite (- (321 / 4)))\<rparr>"

definition skip_argv :: argv where
  "skip_argv =
     [''--origin-lat'' \<mapsto> ''25.5'', ''--origin-lon'' \<mapsto> ''-80.25'',
      ''--build-110m-maps'' \<mapsto> ''1'', ''--skip-aerodromes'' \<mapsto> ''1'']"

definition skip_args :: args where
  "skip_args =
     default_args\<lparr>origin_lat := Some (Finite (51 / 2)), origin_lon := Some (Finite (- (321 / 4))),
                  build_110m_maps := True, skip_aerodromes := True\<rparr>"

definition empty_frame :: gdf where
  "empty_frame = \<lparr>columns = [''CLASS''], crs = Some ''EPSG:4326'', rows = []\<rparr>"

definition data_world :: world where
  "data_world =
     \<lparr>files =
        [(''data/110m_cultural/ne_110m_admin_1_states_provinces.shp'', File (Vector empty_frame)),
         (''data/110m_physical/ne_110m_lakes.shp'', File (Vector empty_frame)),
         (''data/110m_physical/ne_110m_rivers_lake_centerlines.shp'', File (Vector empty_frame)),
         (''data/Class_Airspace/Class_Airspace.shp'', File (Vector empty_frame))],
      stdout = []\<rparr>"

definition cleaned_files :: fs where
  "cleaned_files = files data_world @ [(OUTPUT_DIR, Dir)]"

definition layer_files :: fs where
  "layer_files =
     cleaned_files @
     [(geojson_path ''states_provinces'', File (Vector empty_frame)),
      (geojson_path ''lakes'', File (Vector empty_frame)),
      (geojson_path ''rivers'', File (Vector empty_frame))]"

definition airspace_files :: fs where
  "airspace_files =
     layer_files @
     [(geojson_path ''airspace_class_b'', File (Vector empty_frame)),
      (geojson_path ''airspace_class_c'', File (Vector empty_frame)),
      (geojson_path ''airspace_class_d'', File (Vector empty_frame))]"




section \<open>Notions used to state the properties\<close>

text \<open>
  An origin coordinate is available when its environment variable is set to a non-empty
  text or its command-line option is given; the origin is unresolved when the latitude
  or the longitude is not available.
\<close>

definition origin_unresolved :: "environ \<Rightarrow> args \<Rightarrow> bool" where
  "origin_unresolved env a \<longleftrightarrow>
     (env ''SKIES_ADSB_DEFAULT_ORIGIN_LATITUDE'' \<in> {None, Some []} \<and> origin_lat a = None)
   \<or> (env ''SKIES_ADSB_DEFAULT_ORIGIN_LONGITUDE'' \<in> {None, Some []} \<and> origin_lon a = None)"

text \<open>
  The Overpass convention for a bounding box: south, west, north, east, separated by
  commas, taken from the internal (west, north, east, south) tuple.
\<close>

fun comma_join :: "string list \<Rightarrow> string" where
  "comma_join [] = []"
| "comma_join [x] = x"
| "comma_join (x # y # ys) = x @ '','' @ comma_join (y # ys)"

definition south_west_north_east :: "lib \<Rightarrow> pyfloat \<times> pyfloat \<times> pyfloat \<times> pyfloat \<Rightarrow> string" where
  "south_west_north_east l internal_box =
     (case internal_box of (west, north, east, south) \<Rightarrow>
        comma_join (map (float_str l) [south, west, north, east]))"

text \<open>
  The features of a class, a row after reprojection to EPSG:4326, and the file expected
  for a class of the clipped airspace layer.
\<close>

definition features_of_class :: "string \<Rightarrow> gdf \<Rightarrow> feature list" where
  "features_of_class v g = filter (\<lambda>f. cell f ''CLASS'' = PStr v) (rows g)"

definition reprojected_row :: "lib \<Rightarrow> feature \<Rightarrow> feature" where
  "reprojected_row l r = r\<lparr>geom := map_option (reproject l ''EPSG:4326'') (geom r)\<rparr>"

definition reprojected :: "lib \<Rightarrow> gdf \<Rightarrow> gdf" where
  "reprojected l clipped =
     \<lparr>columns = columns clipped, crs = Some ''EPSG:4326'',
      rows = map (reprojected_row l) (rows clipped)\<rparr>"

definition class_file :: "lib \<Rightarrow> string \<Rightarrow> gdf \<Rightarrow> entry" where
  "class_file l v clipped =
     File (Vector \<lparr>columns = columns clipped, crs = Some ''EPSG:4326'',
                   rows = map (reprojected_row l) (features_of_class v clipped)\<rparr>)"

text \<open>
  The paths cleaning is meant to remove: entries of the output directory whose name does
  not begin with a dot and ends in \<^verbatim>\<open>.geojson\<close> or \<^verbatim>\<open>.json\<close>; and the paths a pattern
  selects in the output directory.
\<close>

definition purged :: "string \<Rightarrow> bool" where
  "purged p \<longleftrightarrow>
     (case in_dir OUTPUT_DIR p of
        None \<Rightarrow> False
      | Some name \<Rightarrow> \<not> ishidden name \<and> (suffix ''.geojson'' name \<or> suffix ''.json'' name))"


text \<open>
  The order in which cleaning reaches the entries it is meant to remove (those ending
  in \<^verbatim>\<open>.geojson\<close> first, then those ending in \<^verbatim>\<open>.json\<close>, each group in listing
  order), and the two lines cleaning prints besides one \<^verbatim>\<open>Deleted:\<close> line for each
  file removed.
\<close>

definition purged_as :: "string \<Rightarrow> string \<Rightarrow> bool" where
  "purged_as ext p \<longleftrightarrow>
     (case in_dir OUTPUT_DIR p of None \<Rightarrow> False | Some name \<Rightarrow> \<not> ishidden name \<and> suffix ext name)"




section \<open>Rounding to the nearest double\<close>

lemma rne_of_int: "rne (of_int k) = k"
  by (simp add: rne_def)

lemma rne_bounds: "\<lfloor>x\<rfloor> \<le> rne x \<and> rne x \<le> \<lfloor>x\<rfloor> + 1"
  by (simp add: rne_def Let_def)

lemma rne_mono: "x \<le> y \<Longrightarrow> rne x \<le> rne y"
proof -
  assume xy: "x \<le> y"
  have fl: "\<lfloor>x\<rfloor> \<le> \<lfloor>y\<rfloor>" using xy by (rule floor_mono)
  show ?thesis
  proof (cases "\<lfloor>x\<rfloor> = \<lfloor>y\<rfloor>")
    case True
    then show ?thesis using xy by (auto simp: rne_def Let_def)
  next
    case False
    then have "\<lfloor>x\<rfloor> + 1 \<le> \<lfloor>y\<rfloor>" using fl by simp
    then show ?thesis using rne_bounds[of x] rne_bounds[of y] by linarith
  qed
qed

lemma rne_le_int: "x \<le> of_int k \<Longrightarrow> rne x \<le> k"
  using rne_mono[of x "of_int k"] by (simp add: rne_of_int)

lemma rne_ge_int: "of_int k \<le> x \<Longrightarrow> k \<le> rne x"
  using rne_mono[of "of_int k" x] by (simp add: rne_of_int)

lemma rne_neg: "rne (- x) = - rne x"
proof (cases "x = of_int \<lfloor>x\<rfloor>")
  case True
  then obtain k where "x = of_int k" ..
  then have "- x = of_int (- k)" by simp
  then show ?thesis using \<open>x = of_int k\<close> rne_of_int by metis
next
  case False
  then have lt: "of_int \<lfloor>x\<rfloor> < x"
    using of_int_floor_le[of x] by linarith
  have ub: "x < of_int \<lfloor>x\<rfloor> + 1" by linarith
  have fl: "\<lfloor>- x\<rfloor> = - \<lfloor>x\<rfloor> - 1"
    by (rule floor_unique) (use lt ub in \<open>simp, linarith, simp\<close>)
  show ?thesis using False
    by (auto simp: rne_def Let_def fl)
qed

lemma b64_ulp_pos: "0 < b64_ulp x"
  by (simp add: b64_ulp_def)

lemma b64_exponent_neg: "b64_exponent (- x) = b64_exponent x"
  by (simp add: b64_exponent_def)

lemma b64_ulp_neg: "b64_ulp (- x) = b64_ulp x"
  by (simp add: b64_ulp_def b64_exponent_neg)

lemma b64_nearest_neg: "b64_nearest (- x) = - b64_nearest x"
  by (simp add: b64_nearest_def b64_ulp_neg rne_neg)

lemma b64_exponent_mono: "0 < x \<Longrightarrow> x \<le> y \<Longrightarrow> b64_exponent x \<le> b64_exponent y"
proof -
  assume "0 < x" "x \<le> y"
  then have "log 2 x \<le> log 2 y" by simp
  then have "\<lfloor>log 2 x\<rfloor> \<le> \<lfloor>log 2 y\<rfloor>" by (rule floor_mono)
  then show ?thesis using \<open>0 < x\<close> \<open>x \<le> y\<close> by (simp add: b64_exponent_def)
qed

lemma b64_ulp_ratio:
  assumes "b64_exponent x \<le> b64_exponent y"
  shows "b64_ulp y = of_int (2 ^ nat (b64_exponent y - b64_exponent x)) * b64_ulp x"
proof -
  define k where "k = nat (b64_exponent y - b64_exponent x)"
  have e: "b64_exponent y - 52 = int k + (b64_exponent x - 52)"
    using assms by (simp add: k_def)
  have "b64_ulp y = 2 powr (of_int (int k) + of_int (b64_exponent x - 52))"
    unfolding b64_ulp_def e by simp
  also have "\<dots> = 2 powr (of_int (int k)) * b64_ulp x"
    unfolding b64_ulp_def by (simp only: powr_add)
  also have "2 powr (of_int (int k)) = (2::real) ^ k"
    by (simp add: powr_realpow)
  finally show ?thesis by (simp add: k_def)
qed

lemma double_multiple:
  assumes "b64_nearest g = g"
  shows "g = of_int (rne (g / b64_ulp g)) * b64_ulp g"
proof (cases "g = 0")
  case True
  have "rne 0 = 0" using rne_of_int[of 0] by simp
  then show ?thesis using True by simp
next
  case False
  then show ?thesis using assms by (simp add: b64_nearest_def)
qed

lemma nearest_le_double_pos:
  assumes y: "0 < y" "y \<le> g" and g: "b64_nearest g = g"
  shows "b64_nearest y \<le> g"
proof -
  define n where "n = rne (g / b64_ulp g)"
  define k where "k = nat (b64_exponent g - b64_exponent y)"
  have le: "b64_exponent y \<le> b64_exponent g" using y by (rule b64_exponent_mono)
  have gn: "g = of_int n * b64_ulp g" unfolding n_def using g by (rule double_multiple)
  have ug: "b64_ulp g = of_int (2 ^ k) * b64_ulp y"
    unfolding k_def using le by (rule b64_ulp_ratio)
  have "of_int n * b64_ulp g = of_int n * (of_int (2 ^ k) * b64_ulp y)"
    by (simp only: ug)
  also have "\<dots> = of_int (n * 2 ^ k) * b64_ulp y" by simp
  finally have gy': "of_int n * b64_ulp g = of_int (n * 2 ^ k) * b64_ulp y" .
  have gy: "g = of_int (n * 2 ^ k) * b64_ulp y"
    using gn gy' by (rule trans)
  have "y / b64_ulp y \<le> g / b64_ulp y"
    using y b64_ulp_pos[of y] by (simp add: divide_right_mono)
  also have "g / b64_ulp y = of_int (n * 2 ^ k)"
    proof -
    have "g / b64_ulp y = of_int (n * 2 ^ k) * b64_ulp y / b64_ulp y"
      using gy by (rule arg_cong)
    also have "\<dots> = of_int (n * 2 ^ k)" using b64_ulp_pos[of y] by simp
    finally show ?thesis .
  qed
  finally have "rne (y / b64_ulp y) \<le> n * 2 ^ k" by (rule rne_le_int)
  then have "(of_int (rne (y / b64_ulp y)) :: real) \<le> of_int (n * 2 ^ k)"
    by (simp only: of_int_le_iff)
  then have "of_int (rne (y / b64_ulp y)) * b64_ulp y \<le> of_int (n * 2 ^ k) * b64_ulp y"
    using b64_ulp_pos[of y] by (intro mult_right_mono) simp_all
  also have "\<dots> = g" using gy by (rule sym)
  finally have "of_int (rne (y / b64_ulp y)) * b64_ulp y \<le> g" .
  moreover have "b64_nearest y = of_int (rne (y / b64_ulp y)) * b64_ulp y"
    using y by (simp add: b64_nearest_def)
  ultimately show ?thesis by simp
qed

lemma b64_nearest_nonneg: "0 \<le> x \<Longrightarrow> 0 \<le> b64_nearest x"
proof -
  assume "0 \<le> x"
  then have "of_int 0 \<le> x / b64_ulp x" using b64_ulp_pos[of x] by simp
  then have "0 \<le> rne (x / b64_ulp x)" by (rule rne_ge_int)
  then show ?thesis using b64_ulp_pos[of x] by (simp add: b64_nearest_def)
qed

lemma b64_nearest_nonpos: "x \<le> 0 \<Longrightarrow> b64_nearest x \<le> 0"
  using b64_nearest_nonneg[of "- x"] by (simp add: b64_nearest_neg)

lemma pos_lt_next_binade: "0 < g \<Longrightarrow> g < 2 powr of_int (b64_exponent g + 1)"
proof -
  assume g: "0 < g"
  have "g < 2 powr (of_int \<lfloor>log 2 g\<rfloor> + 1)"
    using floor_log_eq_powr_iff[of g 2 "\<lfloor>log 2 g\<rfloor>"] g by simp
  also have "\<dots> \<le> 2 powr of_int (b64_exponent g + 1)"
    using g by (simp add: b64_exponent_def)
  finally show ?thesis .
qed

lemma normal_ge_binade:
  assumes "0 < y" "- 1022 < b64_exponent y"
  shows "2 powr of_int (b64_exponent y) \<le> y"
proof -
  have e: "b64_exponent y = \<lfloor>log 2 y\<rfloor>"
    using assms by (simp add: b64_exponent_def max_def split: if_splits)
  have "2 powr of_int \<lfloor>log 2 y\<rfloor> \<le> y"
    using floor_log_eq_powr_iff[of y 2 "\<lfloor>log 2 y\<rfloor>"] assms(1) by simp
  then show ?thesis by (simp only: e)
qed


lemma nearest_ge_double_pos:
  assumes g: "0 < g" "g \<le> y" and d: "b64_nearest g = g"
  shows "g \<le> b64_nearest y"
proof -
  have ypos: "0 < y" using g by linarith
  have ny: "b64_nearest y = of_int (rne (y / b64_ulp y)) * b64_ulp y"
    using ypos by (simp add: b64_nearest_def)
  have le: "b64_exponent g \<le> b64_exponent y" using g by (rule b64_exponent_mono)
  show ?thesis
  proof (cases "b64_exponent g = b64_exponent y")
    case True
    then have u: "b64_ulp g = b64_ulp y" by (simp add: b64_ulp_def)
    define n where "n = rne (g / b64_ulp g)"
    have gn: "g = of_int n * b64_ulp y"
      unfolding n_def u[symmetric] using d by (rule double_multiple)
    have "g / b64_ulp y = of_int n * b64_ulp y / b64_ulp y"
      using gn by (rule arg_cong)
    also have "\<dots> = of_int n" using b64_ulp_pos[of y] by simp
    finally have "of_int n = g / b64_ulp y" by (rule sym)
    also have "\<dots> \<le> y / b64_ulp y"
      using g b64_ulp_pos[of y] by (simp add: divide_right_mono)
    finally have "n \<le> rne (y / b64_ulp y)" by (rule rne_ge_int)
    then have "(of_int n :: real) \<le> of_int (rne (y / b64_ulp y))"
      by (simp only: of_int_le_iff)
    then have "of_int n * b64_ulp y \<le> of_int (rne (y / b64_ulp y)) * b64_ulp y"
      using b64_ulp_pos[of y] by (intro mult_right_mono) simp_all
    then show ?thesis using gn ny by (simp only:)
  next
    case False
    then have lt: "b64_exponent g + 1 \<le> b64_exponent y" using le by simp
    have "- 1022 \<le> b64_exponent g" by (simp add: b64_exponent_def)
    then have normal: "- 1022 < b64_exponent y" using lt by simp
    have b: "2 powr of_int (b64_exponent y) \<le> y"
      using ypos normal by (rule normal_ge_binade)
    have split: "(2::real) powr of_int (b64_exponent y) = of_int (2 ^ 52) * b64_ulp y"
    proof -
      have "(2::real) powr of_int (b64_exponent y) = 2 powr (52 + of_int (b64_exponent y - 52))"
        by simp
      also have "\<dots> = 2 powr 52 * b64_ulp y"
        unfolding b64_ulp_def by (simp only: powr_add)
      finally show ?thesis by simp
    qed
    have "of_int (2 ^ 52) = of_int (2 ^ 52) * b64_ulp y / b64_ulp y"
      using b64_ulp_pos[of y] by simp
    also have "\<dots> \<le> y / b64_ulp y"
      using b b64_ulp_pos[of y] unfolding split by (intro divide_right_mono) simp_all
    finally have "2 ^ 52 \<le> rne (y / b64_ulp y)" by (rule rne_ge_int)
    then have "(of_int (2 ^ 52) :: real) \<le> of_int (rne (y / b64_ulp y))"
      by (simp only: of_int_le_iff)
    then have "of_int (2 ^ 52) * b64_ulp y \<le> of_int (rne (y / b64_ulp y)) * b64_ulp y"
      using b64_ulp_pos[of y] by (intro mult_right_mono) simp_all
    then have big: "2 powr of_int (b64_exponent y) \<le> b64_nearest y"
      unfolding split ny .
    have "g < 2 powr of_int (b64_exponent g + 1)"
      using g(1) by (rule pos_lt_next_binade)
    also have "\<dots> \<le> 2 powr of_int (b64_exponent y)"
      using lt by simp
    finally show ?thesis using big by linarith
  qed
qed

lemma nearest_le_double:
  assumes "x \<le> f" "b64_nearest f = f"
  shows "b64_nearest x \<le> f"
proof -
  have nf: "b64_nearest (- f) = - f" using assms(2) by (simp add: b64_nearest_neg)
  consider "0 < x" | "x \<le> 0" "0 \<le> f" | "x \<le> 0" "f < 0" by linarith
  then show ?thesis
  proof cases
    case 1
    then show ?thesis using assms by (rule nearest_le_double_pos)
  next
    case 2
    then show ?thesis using b64_nearest_nonpos[of x] by linarith
  next
    case 3
    then have "0 < - f" "- f \<le> - x" using assms(1) by simp_all
    then have "- f \<le> b64_nearest (- x)" using nf by (rule nearest_ge_double_pos)
    then show ?thesis by (simp add: b64_nearest_neg)
  qed
qed

lemma nearest_ge_double:
  assumes "f \<le> x" "b64_nearest f = f"
  shows "f \<le> b64_nearest x"
proof -
  have "- x \<le> - f" using assms(1) by simp
  moreover have "b64_nearest (- f) = - f" using assms(2) by (simp add: b64_nearest_neg)
  ultimately have "b64_nearest (- x) \<le> - f" by (rule nearest_le_double)
  then show ?thesis by (simp add: b64_nearest_neg)
qed

section \<open>Command line and origin: properties\<close>

lemma arg_bool_iff: "arg_bool v \<longleftrightarrow> v \<notin> {None, Some []}"
  by (cases v) (simp_all add: arg_bool_def py_bool_str_def)

lemma parse_args_flags:
  assumes "parse_args l argv = Inr a"
  shows "show_geopandas_warnings a = arg_bool (argv ''--show-geopandas-warnings'')"
    and "build_110m_maps a = arg_bool (argv ''--build-110m-maps'')"
    and "skip_aerodromes a = arg_bool (argv ''--skip-aerodromes'')"
  using assms by (auto simp: parse_args_def split: sum.splits)

text \<open>
  Claim C10. Each of \<^verbatim>\<open>--show-geopandas-warnings\<close>, \<^verbatim>\<open>--build-110m-maps\<close> and
  \<^verbatim>\<open>--skip-aerodromes\<close> is true exactly when the option is given a non-empty text
  (\<^verbatim>\<open>false\<close> and \<^verbatim>\<open>0\<close> included); it is false only when the option is omitted or
  given the empty text.
\<close>

theorem C10_bool_flags:
  assumes "parse_args l argv = Inr a"
  shows "(show_geopandas_warnings a \<longleftrightarrow> argv ''--show-geopandas-warnings'' \<notin> {None, Some []})
       \<and> (build_110m_maps a \<longleftrightarrow> argv ''--build-110m-maps'' \<notin> {None, Some []})
       \<and> (skip_aerodromes a \<longleftrightarrow> argv ''--skip-aerodromes'' \<notin> {None, Some []})"
  using parse_args_flags[OF assms] by (simp add: arg_bool_iff)

lemma example_parse: "parse_args example_lib example_argv = Inr example_args"
  by (simp add: parse_args_def arg_float_def arg_bool_def py_bool_str_def example_lib_def
      example_argv_def example_args_def DEFAULT_ORIGIN_DISTANCE_def)

theorem C10_bool_flags_witness:
  "parse_args example_lib example_argv = Inr example_args
   \<and> example_argv ''--skip-aerodromes'' = Some ''false'' \<and> skip_aerodromes example_args
   \<and> example_argv ''--build-110m-maps'' = Some ''0'' \<and> build_110m_maps example_args
   \<and> example_argv ''--show-geopandas-warnings'' = Some [] \<and> \<not> show_geopandas_warnings example_args"
  using C10_bool_flags[OF example_parse] example_parse
  by (simp add: example_argv_def)


lemma chosen_origin_None: "chosen_origin e x = PNone \<longleftrightarrow> e \<in> {None, Some []} \<and> x = None"
  by (cases e; cases x) (auto simp: chosen_origin_def py_or_def of_opt_str_def of_opt_float_def)

lemma resolve_origin_unresolved:
  "origin_unresolved env a \<Longrightarrow>
   resolve_origin l env a w =
     (Inl (Exit 1),
      w\<lparr>stdout := stdout w @ [''Error: Default origin latitude and longitude not found.'',
                               help_text l, []]\<rparr>)"
  unfolding origin_unresolved_def resolve_origin_def Let_def chosen_origin_None[symmetric]
  by (auto simp: print_def)

lemma resolve_origin_resolved:
  "\<not> origin_unresolved env a \<Longrightarrow>
   snd (resolve_origin l env a w) = w \<and> (\<forall>n. fst (resolve_origin l env a w) \<noteq> Inl (Exit n))"
  unfolding origin_unresolved_def resolve_origin_def Let_def chosen_origin_None[symmetric]
  by (auto split: sum.splits)

lemma clip_layers_no_exit: "clip_layers l b ls w \<noteq> (Inl (Exit n), w')"
  by (induction l b ls w rule: clip_layers.induct) (auto split: prod.splits option.splits sum.splits)

lemma write_airspace_no_exit: "write_airspace g ls w \<noteq> (Inl (Exit n), w')"
  by (induction g ls w rule: write_airspace.induct) (auto simp: Let_def split: prod.splits option.splits sum.splits)

lemma run_queries_no_exit: "run_queries l a b ls w \<noteq> (Inl (Exit n), w')"
  by (induction l a b ls w rule: run_queries.induct) (auto simp: Let_def split: prod.splits option.splits sum.splits)

lemma layers_stage_no_exit: "layers_stage l a b w \<noteq> (Inl (Exit n), w')"
  by (auto simp: layers_stage_def Let_def clip_layers_no_exit split: prod.splits sum.splits)

lemma airspace_stage_no_exit: "airspace_stage l b w \<noteq> (Inl (Exit n), w')"
  by (auto simp: airspace_stage_def Let_def write_airspace_no_exit split: prod.splits sum.splits option.splits)

lemma merge_no_exit: "merge_aerodromes_runways l w \<noteq> (Inl (Exit n), w')"
  by (auto simp: merge_aerodromes_runways_def Let_def split: prod.splits sum.splits option.splits)

lemma aerodrome_stage_no_exit: "aerodrome_stage l a b w \<noteq> (Inl (Exit n), w')"
  by (auto simp: aerodrome_stage_def Let_def run_queries_no_exit merge_no_exit split: prod.splits sum.splits option.splits)

lemma origins_stage_no_exit: "origins_stage l a b w \<noteq> (Inl (Exit n), w')"
  by (auto simp: origins_stage_def Let_def split: prod.splits sum.splits option.splits)

lemma build_layers_no_exit: "build_layers l a b w \<noteq> (Inl (Exit n), w')"
  by (auto simp: build_layers_def layers_stage_no_exit airspace_stage_no_exit
      aerodrome_stage_no_exit origins_stage_no_exit split: prod.splits sum.splits)

lemma after_origin_no_exit: "after_origin l a la lo w \<noteq> (Inl (Exit n), w')"
  by (simp add: after_origin_def Let_def build_layers_no_exit)

text \<open>
  Claim C6. When the origin latitude or longitude is available neither from its
  environment variable nor from its command-line option, the run prints the error line
  and the usage text and ends with exit status 1; when both coordinates are available
  the run does not end through \<^verbatim>\<open>exit(1)\<close>.
\<close>

theorem C6_missing_origin_exit:
  assumes "makedirs_exist_ok OUTPUT_DIR (files w) = Inr fs0" and "parse_args l argv = Inr a"
  shows "(origin_unresolved env a \<longrightarrow>
            run l env argv w =
              (Inl (Exit 1),
               \<lparr>files = fs0,
                stdout = stdout w @ [''Error: Default origin latitude and longitude not found.'',
                                      help_text l, []]\<rparr>)
            \<and> exit_status (fst (run l env argv w)) = 1)
       \<and> (\<not> origin_unresolved env a \<longrightarrow> (\<forall>w'. run l env argv w \<noteq> (Inl (Exit 1), w')))"
proof (intro conjI impI allI)
  assume u: "origin_unresolved env a"
  show r: "run l env argv w =
              (Inl (Exit 1),
               \<lparr>files = fs0,
                stdout = stdout w @ [''Error: Default origin latitude and longitude not found.'',
                                      help_text l, []]\<rparr>)"
    using assms by (simp add: run_def resolve_origin_unresolved[OF u])
  show "exit_status (fst (run l env argv w)) = 1" by (simp add: r)
next
  fix w'
  assume u: "\<not> origin_unresolved env a"
  show "run l env argv w \<noteq> (Inl (Exit 1), w')"
    using assms resolve_origin_resolved[OF u, of l "w\<lparr>files := fs0\<rparr>"]
    by (auto simp: run_def after_origin_no_exit split: prod.splits sum.splits)
qed


lemma default_parse: "parse_args example_lib Map.empty = Inr default_args"
  by (simp add: parse_args_def arg_float_def arg_bool_def default_args_def
      DEFAULT_ORIGIN_DISTANCE_def)

lemma empty_makedirs:
  "makedirs_exist_ok OUTPUT_DIR (files empty_world) = Inr [(OUTPUT_DIR, Dir)]"
  by (simp add: makedirs_exist_ok_def empty_world_def)

theorem C6_missing_origin_exit_witness:
  "makedirs_exist_ok OUTPUT_DIR (files empty_world) = Inr [(OUTPUT_DIR, Dir)]
   \<and> parse_args example_lib Map.empty = Inr default_args
   \<and> origin_unresolved Map.empty default_args
   \<and> run example_lib Map.empty Map.empty empty_world =
        (Inl (Exit 1),
         \<lparr>files = [(OUTPUT_DIR, Dir)],
          stdout = [''Error: Default origin latitude and longitude not found.'', ''usage'', []]\<rparr>)
   \<and> parse_args example_lib example_argv = Inr example_args
   \<and> \<not> origin_unresolved Map.empty example_args
   \<and> run example_lib Map.empty example_argv empty_world \<noteq> (Inl (Exit 1), empty_world)"
proof -
  have u: "origin_unresolved Map.empty default_args"
    by (simp add: origin_unresolved_def default_args_def)
  have r: "\<not> origin_unresolved Map.empty example_args"
    by (simp add: origin_unresolved_def example_args_def)
  show ?thesis
    using C6_missing_origin_exit[OF empty_makedirs default_parse, of Map.empty]
      C6_missing_origin_exit[OF empty_makedirs example_parse, of Map.empty]
      u r empty_makedirs default_parse example_parse
    by (simp add: empty_world_def example_lib_def)
qed

theorem C7_env_precedence_counterexample:
  "chosen_origin (Some []) (Some (Finite (25 / 2))) = PFloat (Finite (25 / 2))"
  by (simp add: chosen_origin_def py_or_def of_opt_str_def of_opt_float_def)

text \<open>
  Claim C7, amended. A non-empty environment value is chosen over the command-line
  value, and the origin coordinates the script goes on with are \<^verbatim>\<open>float\<close> of the
  chosen values (a text that \<^verbatim>\<open>float\<close> rejects raises ValueError). An environment
  variable set to the empty text does not take precedence: it is treated as an absent
  one, and the command-line value is chosen, as the example before the theorem shows.
\<close>

theorem C7_env_precedence:
  "(s \<noteq> [] \<longrightarrow>
      chosen_origin (Some s) x = PStr s
      \<and> float_of l (chosen_origin (Some s) x)
          = (case py_float l s of None \<Rightarrow> Inl ValueError | Some y \<Rightarrow> Inr y))
   \<and> (resolve_origin l env a w = (Inr (la, lo), w') \<longrightarrow>
        float_of l (chosen_origin (env ''SKIES_ADSB_DEFAULT_ORIGIN_LATITUDE'') (origin_lat a)) = Inr la
      \<and> float_of l (chosen_origin (env ''SKIES_ADSB_DEFAULT_ORIGIN_LONGITUDE'') (origin_lon a)) = Inr lo)
   \<and> chosen_origin (Some []) x = of_opt_float x
   \<and> chosen_origin None x = of_opt_float x"
  by (auto simp: chosen_origin_def py_or_def of_opt_str_def resolve_origin_def Let_def
      split: sum.splits if_splits option.splits)

lemma example_resolve:
  "resolve_origin example_lib example_env cli_origin_args empty_world
     = (Inr (Finite (51 / 2), Finite (- (321 / 4))), empty_world)"
  by (simp add: resolve_origin_def chosen_origin_def py_or_def of_opt_str_def of_opt_float_def
      example_env_def cli_origin_args_def default_args_def example_lib_def)

theorem C7_env_precedence_witness:
  "''25.5'' \<noteq> []
   \<and> chosen_origin (Some ''25.5'') (Some (Finite 10)) = PStr ''25.5''
   \<and> float_of example_lib (chosen_origin (Some ''25.5'') (Some (Finite 10))) = Inr (Finite (51 / 2))
   \<and> resolve_origin example_lib example_env cli_origin_args empty_world
        = (Inr (Finite (51 / 2), Finite (- (321 / 4))), empty_world)
   \<and> float_of example_lib
        (chosen_origin (example_env ''SKIES_ADSB_DEFAULT_ORIGIN_LATITUDE'') (origin_lat cli_origin_args))
        = Inr (Finite (51 / 2))"
  using C7_env_precedence[of "''25.5''" "Some (Finite 10)" example_lib example_env cli_origin_args
      empty_world "Finite (51 / 2)" "Finite (- (321 / 4))" empty_world]
    example_resolve
  by (simp add: example_lib_def)


section \<open>Bounding box: properties\<close>

lemma rne_close:
  assumes "\<bar>x - of_int n\<bar> < 1 / 2"
  shows "rne x = n"
proof (cases "of_int n \<le> x")
  case True
  then have "\<lfloor>x\<rfloor> = n" using assms by (intro floor_unique) linarith+
  then show ?thesis using assms True by (simp add: rne_def Let_def)
next
  case False
  then have "\<lfloor>x\<rfloor> = n - 1" using assms by (intro floor_unique) linarith+
  then show ?thesis using assms False by (simp add: rne_def Let_def)
qed

lemma b64_nearest_eval:
  assumes "2 powr of_int e \<le> \<bar>x\<bar>" and "\<bar>x\<bar> < 2 powr (of_int e + 1)" and "- 1022 \<le> e"
    and "\<bar>x / 2 powr of_int (e - 52) - of_int n\<bar> < 1 / 2"
  shows "b64_nearest x = of_int n * 2 powr of_int (e - 52)"
proof -
  have pos: "0 < \<bar>x\<bar>" using assms(1) by (smt (verit) powr_gt_zero)
  have "\<lfloor>log 2 \<bar>x\<bar>\<rfloor> = e"
    using floor_log_eq_powr_iff[of "\<bar>x\<bar>" 2 e] pos assms(1,2) by simp
  then have e: "b64_exponent x = e" using assms(3) by (simp add: b64_exponent_def)
  have "rne (x / b64_ulp x) = n"
    unfolding b64_ulp_def e using assms(4) by (rule rne_close)
  then show ?thesis using pos by (simp add: b64_nearest_def b64_ulp_def e)
qed

lemma is_double_nearest: "is_double f \<Longrightarrow> b64_nearest f = f"
  by (simp add: is_double_def fl_round_def Let_def split: if_splits)

lemma is_double_bounds: "is_double f \<Longrightarrow> - (2 ^ 1024) < f \<and> f < 2 ^ 1024"
  by (simp add: is_double_def fl_round_def Let_def split: if_splits)

lemma fl_round_le_double:
  assumes "is_double f" and "x \<le> f"
  shows "fl_le (fl_round x) (Finite f)"
proof -
  have "b64_nearest x \<le> f"
    using assms(2) is_double_nearest[OF assms(1)] by (rule nearest_le_double)
  then show ?thesis using is_double_bounds[OF assms(1)]
    by (auto simp: fl_round_def Let_def)
qed

lemma fl_round_ge_double:
  assumes "is_double f" and "f \<le> x"
  shows "fl_le (Finite f) (fl_round x)"
proof -
  have "f \<le> b64_nearest x"
    using assms(2) is_double_nearest[OF assms(1)] by (rule nearest_ge_double)
  then show ?thesis using is_double_bounds[OF assms(1)]
    by (auto simp: fl_round_def Let_def)
qed

lemma fl_le_trans_mid:
  assumes "fl_le a (Finite m)" and "fl_le (Finite m) c"
  shows "fl_le a c \<and> (fl_less a c \<or> (a = Finite m \<and> c = Finite m))"
  using assms by (cases a; cases c) auto

lemma fl_sub_Finite: "fl_sub (Finite x) (Finite y) = fl_round (x - y)"
  by (simp add: fl_sub_def)

lemma nearest_below_80: "b64_nearest (- 80 - tiny) = - 80"
proof -
  have "b64_nearest (- 80 - tiny) = of_int (- 80 * 2 ^ 46) * 2 powr of_int (6 - 52)"
    by (rule b64_nearest_eval) (simp_all add: tiny_def powr_neg_numeral)
  then show ?thesis by (simp add: powr_neg_numeral)
qed

lemma nearest_above_80: "b64_nearest (- 80 + tiny) = - 80"
proof -
  have "b64_nearest (- 80 + tiny) = of_int (- 80 * 2 ^ 46) * 2 powr of_int (6 - 52)"
    by (rule b64_nearest_eval) (simp_all add: tiny_def powr_neg_numeral)
  then show ?thesis by (simp add: powr_neg_numeral)
qed

lemma is_double_80: "is_double (- 80)"
proof -
  have "b64_nearest (- 80) = of_int (- 80 * 2 ^ 46) * 2 powr of_int (6 - 52)"
    by (rule b64_nearest_eval) (simp_all add: powr_neg_numeral)
  then show ?thesis by (simp add: is_double_def fl_round_def powr_neg_numeral)
qed

lemma is_double_25: "is_double 25"
proof -
  have "b64_nearest 25 = of_int (25 * 2 ^ 48) * 2 powr of_int (4 - 52)"
    by (rule b64_nearest_eval) (simp_all add: powr_neg_numeral)
  then show ?thesis by (simp add: is_double_def fl_round_def powr_neg_numeral)
qed

lemma is_double_tiny: "is_double tiny"
proof -
  have "b64_nearest tiny = of_int (2 ^ 52) * 2 powr of_int (- 60 - 52)"
    by (rule b64_nearest_eval)
      (simp_all add: tiny_def powr_neg_numeral)
  then show ?thesis by (simp add: tiny_def is_double_def fl_round_def powr_neg_numeral)
qed

lemma west_absorbed: "fl_sub (Finite (- 80)) (Finite tiny) = Finite (- 80)"
proof -
  have "fl_sub (Finite (- 80)) (Finite tiny) = fl_round (- 80 - tiny)"
    by (simp only: fl_sub_Finite)
  also have "\<dots> = Finite (- 80)"
    unfolding fl_round_def nearest_below_80 by simp
  finally show ?thesis .
qed

lemma east_absorbed: "fl_add (Finite (- 80)) (Finite tiny) = Finite (- 80)"
proof -
  have "fl_add (Finite (- 80)) (Finite tiny) = fl_round (- 80 + tiny)"
    by (simp only: fl_add.simps)
  also have "\<dots> = Finite (- 80)"
    unfolding fl_round_def nearest_above_80 by simp
  finally show ?thesis .
qed

lemma tiny_offsets: "origin_offsets tiny_distance_args = (Finite tiny, Finite tiny)"
  by (simp add: origin_offsets_def tiny_distance_args_def default_args_def tiny_def)

theorem C3_bounding_box_counterexample:
  "0 < tiny
   \<and> WEST (setup_bounding_box (Finite 25) (Finite (- 80)) tiny_distance_args) = Finite (- 80)
   \<and> EAST (setup_bounding_box (Finite 25) (Finite (- 80)) tiny_distance_args) = Finite (- 80)
   \<and> \<not> fl_less (WEST (setup_bounding_box (Finite 25) (Finite (- 80)) tiny_distance_args))
                (EAST (setup_bounding_box (Finite 25) (Finite (- 80)) tiny_distance_args))"
proof -
  have "0 < tiny" by (simp add: tiny_def)
  moreover have "WEST (setup_bounding_box (Finite 25) (Finite (- 80)) tiny_distance_args) = Finite (- 80)"
    by (simp only: setup_bounding_box_def tiny_offsets Let_def prod.case bbox.simps west_absorbed)
  moreover have "EAST (setup_bounding_box (Finite 25) (Finite (- 80)) tiny_distance_args) = Finite (- 80)"
    by (simp only: setup_bounding_box_def tiny_offsets Let_def prod.case bbox.simps east_absorbed)
  ultimately show ?thesis by simp
qed

lemma offsets_explicit:
  "origin_left a = Some (Finite l) \<Longrightarrow> origin_top a = Some (Finite t) \<Longrightarrow>
   origin_offsets a = (Finite \<bar>l\<bar>, Finite \<bar>t\<bar>)"
  by (simp add: origin_offsets_def)

lemma offsets_distance:
  "origin_left a = None \<or> origin_top a = None \<Longrightarrow> origin_distance a = Finite d \<Longrightarrow>
   origin_offsets a = (Finite \<bar>d\<bar>, Finite \<bar>d\<bar>)"
  by (auto simp: origin_offsets_def split: option.splits)

lemma box_of_offsets:
  assumes "origin_offsets a = (Finite dx, Finite dy)"
  shows "setup_bounding_box (Finite lat) (Finite lon) a =
           \<lparr>WEST = fl_round (lon - dx), NORTH = fl_round (lat + dy),
            EAST = fl_round (lon + dx), SOUTH = fl_round (lat - dy)\<rparr>"
  by (simp add: setup_bounding_box_def assms fl_sub_Finite)

lemma interval_around_double:
  assumes "is_double c" and "0 \<le> d"
  shows "fl_le (fl_round (c - d)) (Finite c) \<and> fl_le (Finite c) (fl_round (c + d))
       \<and> fl_le (fl_round (c - d)) (fl_round (c + d))
       \<and> (fl_less (fl_round (c - d)) (fl_round (c + d))
          \<or> (fl_round (c - d) = Finite c \<and> fl_round (c + d) = Finite c))
       \<and> (is_double (c - d) \<and> is_double (c + d) \<and> d \<noteq> 0 \<longrightarrow>
            fl_round (c - d) = Finite (c - d) \<and> fl_round (c + d) = Finite (c + d)
            \<and> fl_less (fl_round (c - d)) (fl_round (c + d)))"
proof -
  have lo: "fl_le (fl_round (c - d)) (Finite c)"
    using assms by (intro fl_round_le_double) simp_all
  have hi: "fl_le (Finite c) (fl_round (c + d))"
    using assms by (intro fl_round_ge_double) simp_all
  have exact: "fl_less (fl_round (c - d)) (fl_round (c + d))"
    if "is_double (c - d)" "is_double (c + d)" "d \<noteq> 0"
    using that assms(2) by (simp add: is_double_def)
  show ?thesis
    using lo hi fl_le_trans_mid[OF lo hi] exact by (auto simp: is_double_def)
qed

text \<open>
  Claim C3, amended. For a finite origin and finite offsets (the single distance, or the
  explicit left/top pair, with signs stripped), west, east, north and south are
  \<open>lon - d\<close>, \<open>lon + d\<close>, \<open>lat + d\<close> and \<open>lat - d\<close> each rounded to the nearest
  double, with west \<open>\<le>\<close> lon \<open>\<le>\<close> east and south \<open>\<le>\<close> lat \<open>\<le>\<close> north. The inequalities
  between west and east and between south and north are strict unless
  the offset is absorbed by rounding, in which case both sides equal the origin
  coordinate; where the four results are exact and the offset is not zero the box is
  exactly the claimed one. The example before the theorem is a positive distance for
  which west equals east.
\<close>

theorem C3_bounding_box:
  assumes "is_double lat" and "is_double lon"
    and "(origin_left a = Some (Finite l) \<and> origin_top a = Some (Finite t))
       \<or> ((origin_left a = None \<or> origin_top a = None) \<and> origin_distance a = Finite l \<and> t = l)"
  shows "let b = setup_bounding_box (Finite lat) (Finite lon) a in
           WEST b = fl_round (lon - \<bar>l\<bar>) \<and> EAST b = fl_round (lon + \<bar>l\<bar>)
         \<and> NORTH b = fl_round (lat + \<bar>t\<bar>) \<and> SOUTH b = fl_round (lat - \<bar>t\<bar>)
         \<and> fl_le (WEST b) (Finite lon) \<and> fl_le (Finite lon) (EAST b)
         \<and> fl_le (SOUTH b) (Finite lat) \<and> fl_le (Finite lat) (NORTH b)
         \<and> fl_le (WEST b) (EAST b) \<and> fl_le (SOUTH b) (NORTH b)
         \<and> (fl_less (WEST b) (EAST b) \<or> (WEST b = Finite lon \<and> EAST b = Finite lon))
         \<and> (fl_less (SOUTH b) (NORTH b) \<or> (SOUTH b = Finite lat \<and> NORTH b = Finite lat))
         \<and> (is_double (lon - \<bar>l\<bar>) \<and> is_double (lon + \<bar>l\<bar>) \<and> l \<noteq> 0 \<longrightarrow>
               WEST b = Finite (lon - \<bar>l\<bar>) \<and> EAST b = Finite (lon + \<bar>l\<bar>)
               \<and> fl_less (WEST b) (EAST b))
         \<and> (is_double (lat - \<bar>t\<bar>) \<and> is_double (lat + \<bar>t\<bar>) \<and> t \<noteq> 0 \<longrightarrow>
               SOUTH b = Finite (lat - \<bar>t\<bar>) \<and> NORTH b = Finite (lat + \<bar>t\<bar>)
               \<and> fl_less (SOUTH b) (NORTH b))"
proof -
  have off: "origin_offsets a = (Finite \<bar>l\<bar>, Finite \<bar>t\<bar>)"
    using assms(3) offsets_explicit[of a l t] offsets_distance[of a l] by auto
  have b: "setup_bounding_box (Finite lat) (Finite lon) a =
           \<lparr>WEST = fl_round (lon - \<bar>l\<bar>), NORTH = fl_round (lat + \<bar>t\<bar>),
            EAST = fl_round (lon + \<bar>l\<bar>), SOUTH = fl_round (lat - \<bar>t\<bar>)\<rparr>"
    using off by (rule box_of_offsets)
  have x: "fl_le (fl_round (lon - \<bar>l\<bar>)) (Finite lon) \<and> fl_le (Finite lon) (fl_round (lon + \<bar>l\<bar>))
       \<and> fl_le (fl_round (lon - \<bar>l\<bar>)) (fl_round (lon + \<bar>l\<bar>))
       \<and> (fl_less (fl_round (lon - \<bar>l\<bar>)) (fl_round (lon + \<bar>l\<bar>))
          \<or> (fl_round (lon - \<bar>l\<bar>) = Finite lon \<and> fl_round (lon + \<bar>l\<bar>) = Finite lon))
       \<and> (is_double (lon - \<bar>l\<bar>) \<and> is_double (lon + \<bar>l\<bar>) \<and> \<bar>l\<bar> \<noteq> 0 \<longrightarrow>
            fl_round (lon - \<bar>l\<bar>) = Finite (lon - \<bar>l\<bar>) \<and> fl_round (lon + \<bar>l\<bar>) = Finite (lon + \<bar>l\<bar>)
            \<and> fl_less (fl_round (lon - \<bar>l\<bar>)) (fl_round (lon + \<bar>l\<bar>)))"
    using assms(2) by (intro interval_around_double) simp_all
  have y: "fl_le (fl_round (lat - \<bar>t\<bar>)) (Finite lat) \<and> fl_le (Finite lat) (fl_round (lat + \<bar>t\<bar>))
       \<and> fl_le (fl_round (lat - \<bar>t\<bar>)) (fl_round (lat + \<bar>t\<bar>))
       \<and> (fl_less (fl_round (lat - \<bar>t\<bar>)) (fl_round (lat + \<bar>t\<bar>))
          \<or> (fl_round (lat - \<bar>t\<bar>) = Finite lat \<and> fl_round (lat + \<bar>t\<bar>) = Finite lat))
       \<and> (is_double (lat - \<bar>t\<bar>) \<and> is_double (lat + \<bar>t\<bar>) \<and> \<bar>t\<bar> \<noteq> 0 \<longrightarrow>
            fl_round (lat - \<bar>t\<bar>) = Finite (lat - \<bar>t\<bar>) \<and> fl_round (lat + \<bar>t\<bar>) = Finite (lat + \<bar>t\<bar>)
            \<and> fl_less (fl_round (lat - \<bar>t\<bar>)) (fl_round (lat + \<bar>t\<bar>)))"
    using assms(1) by (intro interval_around_double) simp_all
  show ?thesis
    unfolding Let_def b bbox.simps using x y by simp
qed

lemma is_double_82: "is_double (- 82)"
proof -
  have "b64_nearest (- 82) = of_int (- 82 * 2 ^ 46) * 2 powr of_int (6 - 52)"
    by (rule b64_nearest_eval) (simp_all add: powr_neg_numeral)
  then show ?thesis by (simp add: is_double_def fl_round_def powr_neg_numeral)
qed

lemma is_double_78: "is_double (- 78)"
proof -
  have "b64_nearest (- 78) = of_int (- 78 * 2 ^ 46) * 2 powr of_int (6 - 52)"
    by (rule b64_nearest_eval) (simp_all add: powr_neg_numeral)
  then show ?thesis by (simp add: is_double_def fl_round_def powr_neg_numeral)
qed

lemma is_double_23: "is_double 23"
proof -
  have "b64_nearest 23 = of_int (23 * 2 ^ 48) * 2 powr of_int (4 - 52)"
    by (rule b64_nearest_eval) (simp_all add: powr_neg_numeral)
  then show ?thesis by (simp add: is_double_def fl_round_def powr_neg_numeral)
qed

lemma is_double_27: "is_double 27"
proof -
  have "b64_nearest 27 = of_int (27 * 2 ^ 48) * 2 powr of_int (4 - 52)"
    by (rule b64_nearest_eval) (simp_all add: powr_neg_numeral)
  then show ?thesis by (simp add: is_double_def fl_round_def powr_neg_numeral)
qed

theorem C3_bounding_box_witness:
  "is_double 25 \<and> is_double (- 80)
   \<and> origin_left default_args = None \<and> origin_distance default_args = Finite 2
   \<and> is_double (- 80 - \<bar>2\<bar>) \<and> is_double (- 80 + \<bar>2\<bar>)
   \<and> is_double (25 - \<bar>2\<bar>) \<and> is_double (25 + \<bar>2\<bar>)
   \<and> setup_bounding_box (Finite 25) (Finite (- 80)) default_args
       = \<lparr>WEST = Finite (- 82), NORTH = Finite 27, EAST = Finite (- 78), SOUTH = Finite 23\<rparr>
   \<and> fl_less (WEST (setup_bounding_box (Finite 25) (Finite (- 80)) default_args))
              (EAST (setup_bounding_box (Finite 25) (Finite (- 80)) default_args))
   \<and> fl_less (SOUTH (setup_bounding_box (Finite 25) (Finite (- 80)) default_args))
              (NORTH (setup_bounding_box (Finite 25) (Finite (- 80)) default_args))"
proof -
  have src: "(origin_left default_args = Some (Finite 2) \<and> origin_top default_args = Some (Finite 2))
       \<or> ((origin_left default_args = None \<or> origin_top default_args = None)
           \<and> origin_distance default_args = Finite 2 \<and> (2::real) = 2)"
    by (simp add: default_args_def)
  have d: "is_double (- 80 - \<bar>2\<bar>)" "is_double (- 80 + \<bar>2\<bar>)"
          "is_double (25 - \<bar>2\<bar>)" "is_double (25 + \<bar>2\<bar>)"
    using is_double_82 is_double_78 is_double_23 is_double_27 by simp_all
  define b where "b = setup_bounding_box (Finite 25) (Finite (- 80)) default_args"
  have "WEST b = Finite (- 82) \<and> EAST b = Finite (- 78) \<and> NORTH b = Finite 27 \<and> SOUTH b = Finite 23
        \<and> fl_less (WEST b) (EAST b) \<and> fl_less (SOUTH b) (NORTH b)"
    using C3_bounding_box[OF is_double_25 is_double_80 src] d
    unfolding Let_def b_def[symmetric] by (simp add: is_double_def)
  moreover have "b = \<lparr>WEST = WEST b, NORTH = NORTH b, EAST = EAST b, SOUTH = SOUTH b\<rparr>"
    by simp
  ultimately show ?thesis
    using is_double_25 is_double_80 d unfolding b_def[symmetric]
    by (simp add: default_args_def)
qed


section \<open>Queries and line conversion: properties\<close>

lemma overpass_bounds_order: "overpass_bounds l b = south_west_north_east l (box_tuple b)"
  by (simp add: overpass_bounds_def south_west_north_east_def box_tuple_def)

text \<open>
  Claim C8. The bounds embedded in the Overpass queries are the texts of south, west,
  north and east in this order, taken from the internal (west, north, east, south) box,
  and both the \<^verbatim>\<open>way\<close> and the \<^verbatim>\<open>relation\<close> filter of the geometry queries (for
  any \<^verbatim>\<open>aeroway\<close> value) and of the origins query carry these bounds.
\<close>

theorem C8_overpass_axis_order:
  \<open>overpass_bounds l b = south_west_north_east l (WEST b, NORTH b, EAST b, SOUTH b)
   \<and> (\<exists>pre mid post.
        geometry_query l b osm_value =
          pre @ ''way["aeroway"="'' @ osm_value @ ''"]('' @ overpass_bounds l b @ '');''
            @ mid @ ''relation["aeroway"="'' @ osm_value @ ''"]('' @ overpass_bounds l b @ '');''
            @ post)
   \<and> (\<exists>pre mid post.
        origins_query l b =
          pre @ ''way["aeroway"="aerodrome"]('' @ overpass_bounds l b @ '');''
            @ mid @ ''relation["aeroway"="aerodrome"]('' @ overpass_bounds l b @ '');''
            @ post)\<close>
proof (intro conjI)
  show "overpass_bounds l b = south_west_north_east l (WEST b, NORTH b, EAST b, SOUTH b)"
    using overpass_bounds_order[of l b] by (simp add: box_tuple_def)
  show \<open>\<exists>pre mid post.
        geometry_query l b osm_value =
          pre @ ''way["aeroway"="'' @ osm_value @ ''"]('' @ overpass_bounds l b @ '');''
            @ mid @ ''relation["aeroway"="'' @ osm_value @ ''"]('' @ overpass_bounds l b @ '');''
            @ post\<close>
    unfolding geometry_query_def Let_def
    by (rule exI[of _ "nl @ indent @ ''[out:json][timeout:25];'' @ nl @ indent @ ''(    '' @ nl @ indent"],
        rule exI[of _ "nl @ indent"],
        rule exI[of _ "nl @ indent @ '');'' @ nl @ indent @ ''out body;'' @ nl @ indent @ ''>;'' @ nl
                        @ indent @ ''out skel qt;'' @ nl @ replicate 8 CHR '' ''"])
      simp
  show \<open>\<exists>pre mid post.
        origins_query l b =
          pre @ ''way["aeroway"="aerodrome"]('' @ overpass_bounds l b @ '');''
            @ mid @ ''relation["aeroway"="aerodrome"]('' @ overpass_bounds l b @ '');''
            @ post\<close>
    unfolding origins_query_def Let_def
    by (rule exI[of _ "nl @ indent @ ''[out:json][timeout:25];'' @ nl @ indent @ ''(    '' @ nl @ indent"],
        rule exI[of _ "nl @ indent"],
        rule exI[of _ "nl @ indent @ '');'' @ nl @ indent @ ''out center tags;'' @ nl
                        @ replicate 8 CHR '' ''"])
      simp
qed

text \<open>
  Claim C4. A polygon becomes the line through its exterior ring, a multi-polygon the
  multi-line of its members' exterior rings in the same order, interior rings have no
  influence on the result, and any other geometry is returned unchanged.
\<close>

theorem C4_polygons_to_lines:
  "convert_polygons_to_lines (Polygon p) = LineString (exterior p)
   \<and> convert_polygons_to_lines (MultiPolygon ps) = MultiLineString (map exterior ps)
   \<and> convert_polygons_to_lines (Polygon (p\<lparr>interiors := holes\<rparr>))
       = convert_polygons_to_lines (Polygon p)
   \<and> convert_polygons_to_lines (MultiPolygon (map (\<lambda>q. q\<lparr>interiors := []\<rparr>) ps))
       = convert_polygons_to_lines (MultiPolygon ps)
   \<and> ((\<forall>q. g \<noteq> Polygon q) \<and> (\<forall>qs. g \<noteq> MultiPolygon qs) \<longrightarrow> convert_polygons_to_lines g = g)"
  by (cases g) (simp_all add: comp_def)

theorem C4_polygons_to_lines_witness:
  "(\<forall>q. LineString (exterior unit_square) \<noteq> Polygon q)
   \<and> (\<forall>qs. LineString (exterior unit_square) \<noteq> MultiPolygon qs)
   \<and> convert_polygons_to_lines (LineString (exterior unit_square)) = LineString (exterior unit_square)
   \<and> convert_polygons_to_lines (Polygon unit_square)
       = LineString [[Finite 0, Finite 0], [Finite 1, Finite 0], [Finite 1, Finite 1],
                     [Finite 0, Finite 1], [Finite 0, Finite 0]]
   \<and> convert_polygons_to_lines (MultiPolygon [unit_square, unit_square\<lparr>interiors := []\<rparr>])
       = MultiLineString [exterior unit_square, exterior unit_square]"
  using C4_polygons_to_lines[of unit_square "[unit_square, unit_square\<lparr>interiors := []\<rparr>]" "[]"
      "LineString (exterior unit_square)"]
  by (simp add: unit_square_def)


section \<open>FAA airspace layers: properties\<close>

lemma write_file_ok:
  "map_of fs p \<noteq> Some Dir \<Longrightarrow> write_file p c fs = Inr (AList.update p (File c) fs)"
  by (auto simp: write_file_def split: option.splits entry.splits)

lemma cell_reprojected [simp]: "cell (reprojected_row l r) c = cell r c"
  by (simp add: cell_def reprojected_row_def)

lemma to_crs_ok:
  assumes "crs g = Some c"
  shows "to_crs l ''EPSG:4326'' g = Inr (reprojected l g)"
  using assms by (simp add: to_crs_def apply_geometry_def reprojected_def reprojected_row_def[abs_def])

lemma select_reprojected:
  assumes "''CLASS'' \<in> set cols"
  shows "select_eq \<lparr>columns = cols, crs = k, rows = map (reprojected_row l) rs\<rparr> ''CLASS'' v =
           Inr \<lparr>columns = cols, crs = k,
                rows = map (reprojected_row l) (filter (\<lambda>f. cell f ''CLASS'' = PStr v) rs)\<rparr>"
  using assms by (simp add: select_eq_def filter_map comp_def)

lemma airspace_paths_distinct:
  "geojson_path ''airspace_class_b'' \<noteq> geojson_path ''airspace_class_c''"
  "geojson_path ''airspace_class_b'' \<noteq> geojson_path ''airspace_class_d''"
  "geojson_path ''airspace_class_c'' \<noteq> geojson_path ''airspace_class_d''"
  by (simp_all add: geojson_path_def)

lemma write_airspace_files:
  assumes cls: "''CLASS'' \<in> set (columns clipped)"
    and nb: "map_of (files w) (geojson_path ''airspace_class_b'') \<noteq> Some Dir"
    and nc: "map_of (files w) (geojson_path ''airspace_class_c'') \<noteq> Some Dir"
    and nd: "map_of (files w) (geojson_path ''airspace_class_d'') \<noteq> Some Dir"
  shows "\<exists>w'. write_airspace (reprojected l clipped) AIRSPACE w = (Inr (), w')
      \<and> map_of (files w') (geojson_path ''airspace_class_b'') = Some (class_file l ''B'' clipped)
      \<and> map_of (files w') (geojson_path ''airspace_class_c'') = Some (class_file l ''C'' clipped)
      \<and> map_of (files w') (geojson_path ''airspace_class_d'') = Some (class_file l ''D'' clipped)
      \<and> (\<forall>p. p \<notin> {geojson_path ''airspace_class_b'', geojson_path ''airspace_class_c'',
                     geojson_path ''airspace_class_d''} \<longrightarrow> map_of (files w') p = map_of (files w) p)"
  using nb nc nd airspace_paths_distinct
  unfolding reprojected_def AIRSPACE_def
  by (simp add: Let_def select_reprojected[OF cls] to_file_def write_file_ok print_def
      update_conv' class_file_def features_of_class_def)

lemma clip_shapefile_ok:
  "clip_body l p bb (files w) = Inr clipped \<Longrightarrow>
   clip_shapefile_to_bounding_box l p bb w = (Some clipped, w)"
  by (simp add: clip_shapefile_to_bounding_box_def)

lemma files_print [simp]: "files (print s w) = files w"
  by (simp add: print_def)

lemma class_rows_not_A:
  assumes "v \<noteq> ''A''" and "r \<in> set (map (reprojected_row l) (features_of_class v clipped))"
  shows "cell r ''CLASS'' \<noteq> PStr ''A''"
  using assms by (auto simp: features_of_class_def)

text \<open>
  Claim C5. When the airspace shapefile is read and clipped, the clipped layer has a
  coordinate reference system and a \<^verbatim>\<open>CLASS\<close> column, and none of the three output
  paths is a directory, the stage completes and \<^verbatim>\<open>airspace_class_b.geojson\<close>,
  \<^verbatim>\<open>airspace_class_c.geojson\<close> and \<^verbatim>\<open>airspace_class_d.geojson\<close> hold exactly the
  (reprojected) features of the clipped layer whose \<^verbatim>\<open>CLASS\<close> is B, C and D, in
  their order; each file is written whatever its partition holds, also nothing, and no
  feature of class A is in any of the three.
\<close>

theorem C5_airspace_partition:
  assumes "clip_body l ''data/Class_Airspace/Class_Airspace.shp'' (box_tuple b) (files w) = Inr clipped"
    and "crs clipped = Some c"
    and "''CLASS'' \<in> set (columns clipped)"
    and "map_of (files w) (geojson_path ''airspace_class_b'') \<noteq> Some Dir"
    and "map_of (files w) (geojson_path ''airspace_class_c'') \<noteq> Some Dir"
    and "map_of (files w) (geojson_path ''airspace_class_d'') \<noteq> Some Dir"
  shows "\<exists>w'. airspace_stage l b w = (Inr (), w')
      \<and> map_of (files w') (geojson_path ''airspace_class_b'') = Some (class_file l ''B'' clipped)
      \<and> map_of (files w') (geojson_path ''airspace_class_c'') = Some (class_file l ''C'' clipped)
      \<and> map_of (files w') (geojson_path ''airspace_class_d'') = Some (class_file l ''D'' clipped)
      \<and> (\<forall>r \<in> set (map (reprojected_row l) (features_of_class ''B'' clipped))
               \<union> set (map (reprojected_row l) (features_of_class ''C'' clipped))
               \<union> set (map (reprojected_row l) (features_of_class ''D'' clipped)).
             cell r ''CLASS'' \<noteq> PStr ''A'')"
proof -
  define w1 where "w1 = print (''Generating FAA Airspace Layers...'' @ nl) (print hashes w)"
  have f1: "files w1 = files w" by (simp add: w1_def)
  have clip: "clip_shapefile_to_bounding_box l ''data/Class_Airspace/Class_Airspace.shp''
                (box_tuple b) w1 = (Some clipped, w1)"
    using assms(1) by (intro clip_shapefile_ok) (simp add: f1)
  obtain w2 where wa: "write_airspace (reprojected l clipped) AIRSPACE w1 = (Inr (), w2)"
    and fb: "map_of (files w2) (geojson_path ''airspace_class_b'') = Some (class_file l ''B'' clipped)"
    and fc: "map_of (files w2) (geojson_path ''airspace_class_c'') = Some (class_file l ''C'' clipped)"
    and fd: "map_of (files w2) (geojson_path ''airspace_class_d'') = Some (class_file l ''D'' clipped)"
  proof -
    have "\<exists>w'. write_airspace (reprojected l clipped) AIRSPACE w1 = (Inr (), w')
      \<and> map_of (files w') (geojson_path ''airspace_class_b'') = Some (class_file l ''B'' clipped)
      \<and> map_of (files w') (geojson_path ''airspace_class_c'') = Some (class_file l ''C'' clipped)
      \<and> map_of (files w') (geojson_path ''airspace_class_d'') = Some (class_file l ''D'' clipped)
      \<and> (\<forall>p. p \<notin> {geojson_path ''airspace_class_b'', geojson_path ''airspace_class_c'',
                     geojson_path ''airspace_class_d''} \<longrightarrow> map_of (files w') p = map_of (files w1) p)"
      by (rule write_airspace_files) (simp_all add: f1 assms(3-6))
    then obtain w' where "write_airspace (reprojected l clipped) AIRSPACE w1 = (Inr (), w')
      \<and> map_of (files w') (geojson_path ''airspace_class_b'') = Some (class_file l ''B'' clipped)
      \<and> map_of (files w') (geojson_path ''airspace_class_c'') = Some (class_file l ''C'' clipped)
      \<and> map_of (files w') (geojson_path ''airspace_class_d'') = Some (class_file l ''D'' clipped)
      \<and> (\<forall>p. p \<notin> {geojson_path ''airspace_class_b'', geojson_path ''airspace_class_c'',
                     geojson_path ''airspace_class_d''} \<longrightarrow> map_of (files w') p = map_of (files w1) p)" ..
    then show ?thesis using that by (elim conjE)
  qed
  have stage: "airspace_stage l b w = (Inr (), print equals w2)"
    unfolding airspace_stage_def w1_def[symmetric] Let_def
    by (simp add: clip to_crs_ok[OF assms(2)] wa)
  have notA: "\<forall>r \<in> set (map (reprojected_row l) (features_of_class ''B'' clipped))
               \<union> set (map (reprojected_row l) (features_of_class ''C'' clipped))
               \<union> set (map (reprojected_row l) (features_of_class ''D'' clipped)).
             cell r ''CLASS'' \<noteq> PStr ''A''"
  proof
    fix r
    assume "r \<in> set (map (reprojected_row l) (features_of_class ''B'' clipped))
               \<union> set (map (reprojected_row l) (features_of_class ''C'' clipped))
               \<union> set (map (reprojected_row l) (features_of_class ''D'' clipped))"
    then consider "r \<in> set (map (reprojected_row l) (features_of_class ''B'' clipped))"
      | "r \<in> set (map (reprojected_row l) (features_of_class ''C'' clipped))"
      | "r \<in> set (map (reprojected_row l) (features_of_class ''D'' clipped))"
      by (elim UnE)
    then show "cell r ''CLASS'' \<noteq> PStr ''A''"
    proof cases
      case 1
      show ?thesis by (rule class_rows_not_A[OF _ 1]) simp
    next
      case 2
      show ?thesis by (rule class_rows_not_A[OF _ 2]) simp
    next
      case 3
      show ?thesis by (rule class_rows_not_A[OF _ 3]) simp
    qed
  qed
  show ?thesis
    using stage fb fc fd notA by (intro exI[of _ "print equals w2"]) simp
qed

lemma example_clip_airspace:
  "clip_body example_lib ''data/Class_Airspace/Class_Airspace.shp'' (box_tuple example_box)
     (files airspace_world) = Inr airspace_frame"
  by (simp add: clip_body_def gpd_read_file_def airspace_world_def example_lib_def
      apply_geometry_def airspace_frame_def airspace_row_def)

theorem C5_airspace_partition_witness:
  "clip_body example_lib ''data/Class_Airspace/Class_Airspace.shp'' (box_tuple example_box)
     (files airspace_world) = Inr airspace_frame
   \<and> crs airspace_frame = Some ''EPSG:4269''
   \<and> ''CLASS'' \<in> set (columns airspace_frame)
   \<and> map_of (files airspace_world) (geojson_path ''airspace_class_b'') \<noteq> Some Dir
   \<and> map_of (files airspace_world) (geojson_path ''airspace_class_c'') \<noteq> Some Dir
   \<and> map_of (files airspace_world) (geojson_path ''airspace_class_d'') \<noteq> Some Dir
   \<and> airspace_row ''B'' ''MIAMI''
        \<in> set (map (reprojected_row example_lib) (features_of_class ''B'' airspace_frame))
   \<and> cell (airspace_row ''B'' ''MIAMI'') ''CLASS'' \<noteq> PStr ''A''
   \<and> (\<exists>w'. airspace_stage example_lib example_box airspace_world = (Inr (), w')
        \<and> map_of (files w') (geojson_path ''airspace_class_b'')
            = Some (File (Vector \<lparr>columns = [''CLASS'', ''NAME''], crs = Some ''EPSG:4326'',
                 rows = [airspace_row ''B'' ''MIAMI'', airspace_row ''B'' ''ORLANDO'']\<rparr>))
        \<and> map_of (files w') (geojson_path ''airspace_class_c'')
            = Some (File (Vector \<lparr>columns = [''CLASS'', ''NAME''], crs = Some ''EPSG:4326'',
                 rows = [airspace_row ''C'' ''PALM BEACH'']\<rparr>))
        \<and> map_of (files w') (geojson_path ''airspace_class_d'')
            = Some (File (Vector \<lparr>columns = [''CLASS'', ''NAME''], crs = Some ''EPSG:4326'',
                 rows = []\<rparr>)))"
proof -
  have c: "crs airspace_frame = Some ''EPSG:4269''" by (simp add: airspace_frame_def)
  have k: "''CLASS'' \<in> set (columns airspace_frame)" by (simp add: airspace_frame_def)
  have nb: "map_of (files airspace_world) (geojson_path ''airspace_class_b'') \<noteq> Some Dir"
    by (simp add: airspace_world_def geojson_path_def OUTPUT_DIR_def)
  have nc: "map_of (files airspace_world) (geojson_path ''airspace_class_c'') \<noteq> Some Dir"
    by (simp add: airspace_world_def geojson_path_def OUTPUT_DIR_def)
  have nd: "map_of (files airspace_world) (geojson_path ''airspace_class_d'') \<noteq> Some Dir"
    by (simp add: airspace_world_def geojson_path_def OUTPUT_DIR_def)
  have rp: "reprojected_row example_lib (airspace_row v n) = airspace_row v n" for v n
    by (simp add: reprojected_row_def example_lib_def airspace_row_def)
  have fB: "class_file example_lib ''B'' airspace_frame
        = File (Vector \<lparr>columns = [''CLASS'', ''NAME''], crs = Some ''EPSG:4326'',
                 rows = [airspace_row ''B'' ''MIAMI'', airspace_row ''B'' ''ORLANDO'']\<rparr>)"
    by (simp add: class_file_def features_of_class_def airspace_frame_def rp)
       (simp add: airspace_row_def cell_def)
  have fC: "class_file example_lib ''C'' airspace_frame
        = File (Vector \<lparr>columns = [''CLASS'', ''NAME''], crs = Some ''EPSG:4326'',
                 rows = [airspace_row ''C'' ''PALM BEACH'']\<rparr>)"
    by (simp add: class_file_def features_of_class_def airspace_frame_def rp)
       (simp add: airspace_row_def cell_def)
  have fD: "class_file example_lib ''D'' airspace_frame
        = File (Vector \<lparr>columns = [''CLASS'', ''NAME''], crs = Some ''EPSG:4326'',
                 rows = []\<rparr>)"
    by (simp add: class_file_def features_of_class_def airspace_frame_def rp)
       (simp add: airspace_row_def cell_def)
  have m: "airspace_row ''B'' ''MIAMI''
        \<in> set (map (reprojected_row example_lib) (features_of_class ''B'' airspace_frame))"
    using fB by (simp add: class_file_def)
  have a: "cell (airspace_row ''B'' ''MIAMI'') ''CLASS'' \<noteq> PStr ''A''"
    by (simp add: airspace_row_def cell_def)
  show ?thesis
    using C5_airspace_partition[OF example_clip_airspace c k nb nc nd]
      example_clip_airspace c k nb nc nd m a
    unfolding fB fC fD by blast
qed


section \<open>Natural Earth layers: properties\<close>

lemma origin_parse: "parse_args example_lib origin_argv = Inr origin_args"
  by (simp add: parse_args_def arg_float_def arg_bool_def example_lib_def
      origin_argv_def origin_args_def default_args_def DEFAULT_ORIGIN_DISTANCE_def)

lemma origin_resolve:
  "resolve_origin example_lib Map.empty origin_args w
     = (Inr (Finite (51 / 2), Finite (- (321 / 4))), w)"
  by (simp add: resolve_origin_def chosen_origin_def py_or_def of_opt_str_def of_opt_float_def
      origin_args_def default_args_def)

lemma clip_body_read_fails:
  "gpd_read_file l p fs = Inl e \<Longrightarrow> clip_body l p bb fs = Inl e"
  by (simp add: clip_body_def)

lemma clip_shapefile_fails:
  assumes "gpd_read_file l p (files w) = Inl e"
  shows "clip_shapefile_to_bounding_box l p bb w =
           (None, print (if e = FileNotFoundError then ''Error: shape file not found at '' @ p
                         else ''An unexpected error occurred: '' @ exn_str l e) w)"
  using clip_body_read_fails[OF assms, of bb]
  by (cases e) (simp_all add: clip_shapefile_to_bounding_box_def)

text \<open>
  Claim C1 does not hold of the script. When the shapefile of a layer cannot be read,
  the clipping function reports the error and returns \<^verbatim>\<open>None\<close>, and no file is
  written for the layer; but the loop calls \<^verbatim>\<open>to_file\<close> on that result, so
  AttributeError reaches the top level: the layers after it are not processed and the
  exit status is 1. The run after the theorem is one with no shapefile at all.
\<close>

theorem C1_missing_shapefile_propagates:
  assumes "gpd_read_file l map_data (files w) = Inl e"
  shows "clip_layers l b ((map_data, output_name) # rest) w =
           (Inl (Uncaught AttributeError),
            print (if e = FileNotFoundError then ''Error: shape file not found at '' @ map_data
                   else ''An unexpected error occurred: '' @ exn_str l e)
              (print (tab @ ''Clipping '' @ map_data @ '' to bounding box...'') w))
       \<and> files (snd (clip_layers l b ((map_data, output_name) # rest) w)) = files w
       \<and> exit_status (fst (clip_layers l b ((map_data, output_name) # rest) w)) = 1"
proof -
  have "gpd_read_file l map_data
          (files (print (tab @ ''Clipping '' @ map_data @ '' to bounding box...'') w)) = Inl e"
    using assms by (simp add: print_def)
  then show ?thesis
    by (simp add: clip_shapefile_fails print_def)
qed

lemma glob_only_dir: "glob OUTPUT_DIR pattern [(OUTPUT_DIR, Dir)] = []"
  by (simp add: glob_def in_dir_def OUTPUT_DIR_def)

lemma clean_only_dir:
  "files w = [(OUTPUT_DIR, Dir)] \<Longrightarrow> files (clean_output_directory l w) = [(OUTPUT_DIR, Dir)]"
  by (simp add: clean_output_directory_def glob_only_dir print_def)

lemma files_print_origin [simp]: "files (print_origin l la lo a b w) = files w"
  by (simp add: print_origin_def print_def Let_def split: prod.splits)

theorem C1_missing_shapefile_propagates_witness:
  "gpd_read_file example_lib ''data/10m_cultural/10m_cultural/ne_10m_admin_1_states_provinces.shp''
      [(OUTPUT_DIR, Dir)] = Inl (LibraryError ''DataSourceError'')
   \<and> fst (run example_lib Map.empty origin_argv empty_world) = Inl (Uncaught AttributeError)
   \<and> exit_status (fst (run example_lib Map.empty origin_argv empty_world)) = 1
   \<and> files (snd (run example_lib Map.empty origin_argv empty_world)) = [(OUTPUT_DIR, Dir)]
   \<and> last (stdout (snd (run example_lib Map.empty origin_argv empty_world)))
       = ''An unexpected error occurred: error''"
proof -
  define b where "b = setup_bounding_box (Finite (51 / 2)) (Finite (- (321 / 4))) origin_args"
  define w2 where "w2 = print equals (clean_output_directory example_lib (print hashes
      (print_origin example_lib (Finite (51 / 2)) (Finite (- (321 / 4))) origin_args b
         \<lparr>files = [(OUTPUT_DIR, Dir)], stdout = []\<rparr>)))"
  define w3 where "w3 = print (nl @ tab @ ''Clipping maps to bounding box '' @ box_text example_lib b @ ''...'')
      (print (nl @ tab @ ''Building 10m maps'')
        (print ''Generating Natural Earth Layers...'' (print hashes w2)))"
  have f2: "files w2 = [(OUTPUT_DIR, Dir)]"
    unfolding w2_def by (simp add: print_def clean_only_dir)
  have f3: "files w3 = [(OUTPUT_DIR, Dir)]"
    unfolding w3_def by (simp add: print_def f2)
  have miss: "gpd_read_file example_lib
       ''data/10m_cultural/10m_cultural/ne_10m_admin_1_states_provinces.shp'' (files w3)
       = Inl (LibraryError ''DataSourceError'')"
    unfolding f3 by (simp add: gpd_read_file_def OUTPUT_DIR_def)
  have layers10: "MAP_LAYERS origin_args =
      (''data/10m_cultural/10m_cultural/ne_10m_admin_1_states_provinces.shp'', ''states_provinces'')
        # tl MAP_LAYERS_10M"
    by (simp add: MAP_LAYERS_def origin_args_def default_args_def MAP_LAYERS_10M_def)
  note bug = C1_missing_shapefile_propagates[OF miss, of b "''states_provinces''" "tl MAP_LAYERS_10M"]
  have stage: "layers_stage example_lib origin_args b w2 =
     (Inl (Uncaught AttributeError),
      print ''An unexpected error occurred: error''
        (print (tab @ ''Clipping data/10m_cultural/10m_cultural/ne_10m_admin_1_states_provinces.shp to bounding box...'') w3))"
    unfolding layers_stage_def Let_def layers10
    using bug unfolding w3_def
    by (simp add: origin_args_def default_args_def example_lib_def)
  have r: "run example_lib Map.empty origin_argv empty_world =
     (Inl (Uncaught AttributeError),
      print ''An unexpected error occurred: error''
        (print (tab @ ''Clipping data/10m_cultural/10m_cultural/ne_10m_admin_1_states_provinces.shp to bounding box...'') w3))"
    unfolding run_def
    by (simp add: makedirs_exist_ok_def empty_world_def origin_parse origin_resolve after_origin_def
        Let_def build_layers_def stage[unfolded w2_def b_def])
  show ?thesis
    unfolding r using miss f3 by (simp add: print_def)
qed


section \<open>OSM aerodromes and runways: properties\<close>

lemma json_dump_ok:
  "map_of fs p \<noteq> Some Dir \<Longrightarrow> json_dump j p fs = Inr (AList.update p (File (Text j)) fs)"
  by (auto simp: json_dump_def write_file_def split: option.splits entry.splits)

lemma skip_queries:
  assumes "skip_aerodromes a"
    and "map_of (files w) ''aerodrome.geojson'' \<noteq> Some Dir"
    and "map_of (files w) ''tmp_runway.geojson'' \<noteq> Some Dir"
  shows "\<exists>w'. run_queries l a b OVERPASS_QUERIES w = (Inr (), w')
      \<and> map_of (files w') = (map_of (files w))
           (''aerodrome.geojson'' \<mapsto> File (Text (JObj [])),
            ''tmp_runway.geojson'' \<mapsto> File (Text (JObj [])))"
  using assms
  by (simp add: OVERPASS_QUERIES_def Let_def json_dump_ok print_def update_conv')

lemma output_paths:
  "aerodrome_geojson = ''../public/map-data/aerodrome.geojson''"
  "tmp_runway_geojson = ''../public/map-data/tmp_runway.geojson''"
  by (simp_all add: aerodrome_geojson_def tmp_runway_geojson_def OVERPASS_QUERIES_def OUTPUT_DIR_def)

text \<open>
  Claim C2 does not hold of the script. With the skip flag the loop over
  \<open>OVERPASS_QUERIES\<close> writes the empty JSON object at \<^verbatim>\<open>aerodrome.geojson\<close> and
  \<^verbatim>\<open>tmp_runway.geojson\<close> in the working directory, not in the output directory where
  the real results go and where the merge step reads them. When the output directory
  holds no \<^verbatim>\<open>aerodrome.geojson\<close> (as after cleaning), the merge step raises at its
  first read, the exception reaches the top level and the exit status is 1. The run
  after the theorem has every shapefile in place and the skip flag set.
\<close>

theorem C2_skip_placeholder_misplaced:
  assumes "skip_aerodromes a"
    and "map_of (files w) aerodrome_geojson = None"
    and "map_of (files w) ''aerodrome.geojson'' \<noteq> Some Dir"
    and "map_of (files w) ''tmp_runway.geojson'' \<noteq> Some Dir"
  shows "\<exists>w'. aerodrome_stage l a b w = (Inl (Uncaught (LibraryError ''DataSourceError'')), w')
      \<and> exit_status (Inl (Uncaught (LibraryError ''DataSourceError''))) = 1
      \<and> map_of (files w') ''aerodrome.geojson'' = Some (File (Text (JObj [])))
      \<and> map_of (files w') ''tmp_runway.geojson'' = Some (File (Text (JObj [])))
      \<and> map_of (files w') aerodrome_geojson = None
      \<and> map_of (files w') tmp_runway_geojson = map_of (files w) tmp_runway_geojson"
proof -
  define w1 where "w1 = print (''Generating OSM Aerodrome and Runway Geometry Layers...'' @ nl)
                 (print hashes w)"
  have f1: "files w1 = files w" by (simp add: w1_def print_def)
  obtain w2 where q: "run_queries l a b OVERPASS_QUERIES w1 = (Inr (), w2)"
    and f2: "map_of (files w2) = (map_of (files w))
           (''aerodrome.geojson'' \<mapsto> File (Text (JObj [])),
            ''tmp_runway.geojson'' \<mapsto> File (Text (JObj [])))"
    using skip_queries[of a w1 l b] assms(1,3,4) unfolding f1 by auto
  have absent: "map_of (files w2) aerodrome_geojson = None"
    unfolding f2 using assms(2) by (simp add: output_paths)
  have m: "merge_aerodromes_runways l w2 =
      (Inl (Uncaught (LibraryError ''DataSourceError'')), print (tab @ ''Merge Aerodromes and Runways...'') w2)"
    using absent by (simp add: merge_aerodromes_runways_def gpd_read_file_def print_def)
  have st: "aerodrome_stage l a b w =
      (Inl (Uncaught (LibraryError ''DataSourceError'')), print (tab @ ''Merge Aerodromes and Runways...'') w2)"
    unfolding aerodrome_stage_def w1_def[symmetric] Let_def by (simp add: q m)
  show ?thesis
    unfolding st using f2 assms(2)
    by (intro exI[of _ "print (tab @ ''Merge Aerodromes and Runways...'') w2"])
       (simp add: print_def output_paths)
qed

lemma skip_parse: "parse_args example_lib skip_argv = Inr skip_args"
  by (simp add: parse_args_def arg_float_def arg_bool_def py_bool_str_def example_lib_def
      skip_argv_def skip_args_def default_args_def DEFAULT_ORIGIN_DISTANCE_def)

lemma skip_resolve:
  "resolve_origin example_lib Map.empty skip_args w
     = (Inr (Finite (51 / 2), Finite (- (321 / 4))), w)"
  by (simp add: resolve_origin_def chosen_origin_def py_or_def of_opt_str_def of_opt_float_def
      skip_args_def default_args_def)

lemma skip_makedirs: "makedirs_exist_ok OUTPUT_DIR (files data_world) = Inr cleaned_files"
  by (simp add: makedirs_exist_ok_def cleaned_files_def data_world_def OUTPUT_DIR_def)

lemma skip_clean:
  assumes "files w = cleaned_files"
  shows "files (clean_output_directory l w) = cleaned_files"
proof -
  have "glob OUTPUT_DIR pattern cleaned_files = []" for pattern
    by (simp add: glob_def in_dir_def cleaned_files_def data_world_def OUTPUT_DIR_def)
  then show ?thesis using assms
    by (simp add: clean_output_directory_def print_def)
qed

lemma skip_layers:
  assumes "files w = cleaned_files"
  shows "\<exists>w1. layers_stage example_lib skip_args b w = (Inr (), w1) \<and> files w1 = layer_files"
  using assms
  by (simp add: layers_stage_def MAP_LAYERS_def MAP_LAYERS_110M_def skip_args_def default_args_def
      clip_shapefile_to_bounding_box_def clip_body_def gpd_read_file_def example_lib_def
      apply_geometry_def empty_frame_def to_file_def write_file_def geojson_path_def OUTPUT_DIR_def
      print_def Let_def cleaned_files_def layer_files_def data_world_def)

lemma skip_airspace:
  assumes "files w = layer_files"
  shows "\<exists>w2. airspace_stage example_lib b w = (Inr (), w2) \<and> files w2 = airspace_files"
  using assms
  by (simp add: airspace_stage_def AIRSPACE_def example_lib_def
      clip_shapefile_to_bounding_box_def clip_body_def gpd_read_file_def
      apply_geometry_def to_crs_def select_eq_def to_file_def write_file_def geojson_path_def
      OUTPUT_DIR_def print_def Let_def cleaned_files_def layer_files_def airspace_files_def
      data_world_def empty_frame_def)

lemma build_layers_to_aerodromes:
  assumes "layers_stage l a b w = (Inr (), w1)" and "airspace_stage l b w1 = (Inr (), w2)"
    and "aerodrome_stage l a b w2 = (Inl s, w3)"
  shows "build_layers l a b w = (Inl s, w3)"
  using assms by (simp add: build_layers_def)

theorem C2_skip_placeholder_misplaced_witness:
  "skip_aerodromes skip_args
   \<and> (\<exists>w'. run example_lib Map.empty skip_argv data_world = (Inl (Uncaught (LibraryError ''DataSourceError'')), w')
        \<and> map_of (files w') ''aerodrome.geojson'' = Some (File (Text (JObj [])))
        \<and> map_of (files w') ''tmp_runway.geojson'' = Some (File (Text (JObj [])))
        \<and> map_of (files w') ''../public/map-data/aerodrome.geojson'' = None
        \<and> map_of (files w') ''../public/map-data/tmp_runway.geojson'' = None)"
proof -
  define b where "b = setup_bounding_box (Finite (51 / 2)) (Finite (- (321 / 4))) skip_args"
  define w0 where "w0 = print equals (clean_output_directory example_lib (print hashes
      (print_origin example_lib (Finite (51 / 2)) (Finite (- (321 / 4))) skip_args b
         (data_world\<lparr>files := cleaned_files\<rparr>))))"
  have f0: "files w0 = cleaned_files"
    unfolding w0_def
    by (simp add: print_def skip_clean print_origin_def Let_def split: prod.splits)
  obtain w1 where l1: "layers_stage example_lib skip_args b w0 = (Inr (), w1)"
    and f1: "files w1 = layer_files"
    using skip_layers[OF f0] by blast
  obtain w2 where l2: "airspace_stage example_lib b w1 = (Inr (), w2)"
    and f2: "files w2 = airspace_files"
    using skip_airspace[OF f1] by blast
  have sk: "skip_aerodromes skip_args" by (simp add: skip_args_def)
  have absent: "map_of (files w2) aerodrome_geojson = None"
    unfolding f2
    by (simp add: output_paths airspace_files_def layer_files_def cleaned_files_def data_world_def
        geojson_path_def OUTPUT_DIR_def)
  have na: "map_of (files w2) ''aerodrome.geojson'' \<noteq> Some Dir"
    unfolding f2
    by (simp add: airspace_files_def layer_files_def cleaned_files_def data_world_def
        geojson_path_def OUTPUT_DIR_def)
  have nr: "map_of (files w2) ''tmp_runway.geojson'' \<noteq> Some Dir"
    unfolding f2
    by (simp add: airspace_files_def layer_files_def cleaned_files_def data_world_def
        geojson_path_def OUTPUT_DIR_def)
  have tmp: "map_of (files w2) tmp_runway_geojson = None"
    unfolding f2
    by (simp add: output_paths airspace_files_def layer_files_def cleaned_files_def data_world_def
        geojson_path_def OUTPUT_DIR_def)
  obtain w3 where st: "aerodrome_stage example_lib skip_args b w2 = (Inl (Uncaught (LibraryError ''DataSourceError'')), w3)"
    and a3: "map_of (files w3) ''aerodrome.geojson'' = Some (File (Text (JObj [])))"
    and r3: "map_of (files w3) ''tmp_runway.geojson'' = Some (File (Text (JObj [])))"
    and o3: "map_of (files w3) aerodrome_geojson = None"
    and t3: "map_of (files w3) tmp_runway_geojson = map_of (files w2) tmp_runway_geojson"
    using C2_skip_placeholder_misplaced[OF sk absent na nr, of example_lib b] by blast
  have bl: "build_layers example_lib skip_args b w0 = (Inl (Uncaught (LibraryError ''DataSourceError'')), w3)"
    using l1 l2 st by (rule build_layers_to_aerodromes)
  have r: "run example_lib Map.empty skip_argv data_world = (Inl (Uncaught (LibraryError ''DataSourceError'')), w3)"
    unfolding run_def
    by (simp add: skip_makedirs skip_parse skip_resolve after_origin_def Let_def
        bl[unfolded w0_def b_def])
  show ?thesis
    using sk r a3 r3 o3 t3 tmp by (auto simp: output_paths)
qed


section \<open>Cleaning the output directory: properties\<close>









































lemma purged_purged_as: "purged p \<longleftrightarrow> purged_as ''.geojson'' p \<or> purged_as ''.json'' p"
  by (auto simp: purged_def purged_as_def split: option.splits)





















end
